theory Spec2Isabelle
  imports Complex_Main
begin

section \<open>Python values and errors\<close>

text \<open>
  Exceptions of the Python source are values: every function that can raise returns
  \<open>py_error + 'a\<close>, with \<open>Inl\<close> the exception.
\<close>

datatype py_error = ValueError | ZeroDivisionError | TypeError | KeyError | AttributeError | ImportError

section \<open>core/ring\_buffer.py\<close>

text \<open>
  The buffer stores samples of one element type (the dtype of \<open>_buf\<close>); a sample is
  modelled as a value of that type, so the cast NumPy performs on assignment is the
  identity here. The lock only makes each method atomic and is not modelled. The
  capacity, the cursor and the filled count are natural numbers: the constructor raises
  on a negative capacity, and the code stores only 0, a remainder or a minimum of
  non-negative numbers in the other two.
\<close>

record 'a ring_buffer =
  capacity :: nat
  buf :: "'a list"
  write_cur :: nat
  filled :: nat

definition RingBuffer_init :: "int \<Rightarrow> py_error + ('a::zero) ring_buffer" where
  \<comment> \<open>\<open>np.zeros\<close> raises ValueError on a negative dimension.\<close>
  "RingBuffer_init c =
     (if c < 0 then Inl ValueError
      else Inr \<lparr>capacity = nat c, buf = replicate (nat c) 0, write_cur = 0, filled = 0\<rparr>)"

definition clear :: "('a::zero) ring_buffer \<Rightarrow> 'a ring_buffer" where
  "clear s = s\<lparr>buf := replicate (length (buf s)) 0, write_cur := 0, filled := 0\<rparr>"

definition assign_slice :: "'a list \<Rightarrow> nat \<Rightarrow> nat \<Rightarrow> 'a list \<Rightarrow> py_error + 'a list" where
  \<comment> \<open>NumPy's \<open>b[lo:hi] = xs\<close> for non-negative bounds: the bounds are clamped to the
      array, the source must have the length of the slice or length 1 (broadcast).\<close>
  "assign_slice b lo hi xs =
     (let lo' = min lo (length b);
          hi' = max lo' (min hi (length b));
          m = hi' - lo'
      in if length xs = m then Inr (take lo' b @ xs @ drop hi' b)
         else if length xs = 1 then Inr (take lo' b @ replicate m (hd xs) @ drop hi' b)
         else Inl ValueError)"

definition neg_slice_from :: "'a list \<Rightarrow> nat \<Rightarrow> 'a list" where
  \<comment> \<open>Python's \<open>x[-k:]\<close> for \<open>k \<ge> 0\<close>; \<open>x[-0:]\<close> is the whole of \<open>x\<close>.\<close>
  "neg_slice_from x k = (if k = 0 then x else drop (length x - k) x)"

definition append_rb :: "'a ring_buffer \<Rightarrow> 'a list \<Rightarrow> py_error + 'a ring_buffer" where
  "append_rb s x =
     (let n = length x in
      if n = 0 then Inr s
      else if n \<ge> capacity s then
        (case assign_slice (buf s) 0 (length (buf s)) (neg_slice_from x (capacity s)) of
           Inl e \<Rightarrow> Inl e
         | Inr b \<Rightarrow> Inr (s\<lparr>buf := b, write_cur := 0, filled := capacity s\<rparr>))
      else
        (let end_cur = write_cur s + n in
         case (if end_cur \<le> capacity s then assign_slice (buf s) (write_cur s) end_cur x
               else (let k = capacity s - write_cur s in
                     case assign_slice (buf s) (write_cur s) (length (buf s)) (take k x) of
                       Inl e \<Rightarrow> Inl e
                     | Inr b1 \<Rightarrow> assign_slice b1 0 (end_cur - capacity s) (drop k x))) of
           Inl e \<Rightarrow> Inl e
         | Inr b \<Rightarrow> Inr (s\<lparr>buf := b, write_cur := end_cur mod capacity s,
                            filled := min (capacity s) (filled s + n)\<rparr>)))"

definition get_last :: "'a ring_buffer \<Rightarrow> int \<Rightarrow> py_error + 'a list" where
  "get_last s n0 =
     (let n = min n0 (int (filled s)) in
      if n \<le> 0 then Inr []
      else if capacity s = 0 then Inl ZeroDivisionError
      else
        (let start = nat ((int (write_cur s) - n) mod int (capacity s)) in
         if start < write_cur s then Inr (take (write_cur s - start) (drop start (buf s)))
         else Inr (drop start (buf s) @ take (write_cur s) (buf s))))"

fun appends :: "'a ring_buffer \<Rightarrow> 'a list list \<Rightarrow> py_error + 'a ring_buffer" where
  "appends s [] = Inr s"
| "appends s (x # xs) = (case append_rb s x of Inl e \<Rightarrow> Inl e | Inr s' \<Rightarrow> appends s' xs)"

definition lastn :: "nat \<Rightarrow> 'a list \<Rightarrow> 'a list" where
  \<comment> \<open>The last \<open>k\<close> elements of a list, all of it when it is shorter.\<close>
  "lastn k xs = drop (length xs - k) xs"

definition wf_ring :: "'a ring_buffer \<Rightarrow> bool" where
  \<comment> \<open>The data model's state: storage of size C, cursor in [0,C), filled in [0,C].\<close>
  "wf_ring s \<longleftrightarrow> length (buf s) = capacity s \<and> write_cur s < capacity s \<and> filled s \<le> capacity s"

definition unrolled :: "'a ring_buffer \<Rightarrow> 'a list" where
  \<comment> \<open>The storage read once around, starting at the cursor: oldest slot first.\<close>
  "unrolled s = drop (write_cur s) (buf s) @ take (write_cur s) (buf s)"

section \<open>Parameter values\<close>

text \<open>
  Parameter dictionaries hold untyped Python values (\<open>Dict[str, Any]\<close>); the values that
  the schemas, the parameter forms and the preset files produce are these. Floats are
  modelled as reals: rounding, infinities and NaN are outside the model. \<open>PStr\<close> stands
  for a string that does not spell a number, so \<open>float()\<close> and \<open>int()\<close> raise on it.
\<close>

datatype pval = PNone | PBool bool | PInt int | PFloat real | PStr string

type_synonym params = "string \<rightharpoonup> pval"

fun py_float :: "pval \<Rightarrow> py_error + real" where
  "py_float PNone = Inl TypeError"
| "py_float (PBool b) = Inr (if b then 1 else 0)"
| "py_float (PInt i) = Inr (real_of_int i)"
| "py_float (PFloat r) = Inr r"
| "py_float (PStr s) = Inl ValueError"

fun py_int :: "pval \<Rightarrow> py_error + int" where
  "py_int PNone = Inl TypeError"
| "py_int (PBool b) = Inr (if b then 1 else 0)"
| "py_int (PInt i) = Inr i"
| "py_int (PFloat r) = Inr (if 0 \<le> r then \<lfloor>r\<rfloor> else \<lceil>r\<rceil>)"
| "py_int (PStr s) = Inl ValueError"

fun py_bool :: "pval \<Rightarrow> bool" where
  "py_bool PNone = False"
| "py_bool (PBool b) = b"
| "py_bool (PInt i) = (i \<noteq> 0)"
| "py_bool (PFloat r) = (r \<noteq> 0)"
| "py_bool (PStr s) = (s \<noteq> [])"

definition dict_get :: "params \<Rightarrow> string \<Rightarrow> pval \<Rightarrow> pval" where
  \<comment> \<open>\<open>d.get(key, default)\<close>\<close>
  "dict_get d k dflt = (case d k of None \<Rightarrow> dflt | Some v \<Rightarrow> v)"

section \<open>core/schema.py and signal/components\<close>

text \<open>
  Of a \<open>ParamSpec\<close> the engine reads the key and the default only; the label, type,
  bounds and descriptions serve the parameter forms and are left out of the record.
\<close>

record param_spec =
  key :: string
  default :: pval

datatype comp_kind = Noise | Sine | RectPulse | GaussPulse | Chirp

definition spec :: "string \<Rightarrow> pval \<Rightarrow> param_spec" where
  "spec k d = \<lparr>key = k, default = d\<rparr>"

fun schema :: "comp_kind \<Rightarrow> param_spec list" where
  "schema Noise = [spec ''mean'' (PFloat 0), spec ''sigma'' (PFloat (2 / 10)), spec ''seed'' (PInt 0)]"
| "schema Sine = [spec ''amplitude'' (PFloat 1), spec ''frequency'' (PFloat 5),
                  spec ''phase'' (PFloat 0), spec ''dc'' (PFloat 0), spec ''smooth_ms'' (PInt 150)]"
| "schema RectPulse = [spec ''amplitude'' (PFloat 1), spec ''width_sec'' (PFloat (2 / 100)),
                       spec ''period_sec'' (PFloat (3 / 10)), spec ''start_time_sec'' (PFloat 0)]"
| "schema GaussPulse = [spec ''amplitude'' (PFloat 1), spec ''sigma_sec'' (PFloat (1 / 100)),
                        spec ''center_time_sec'' (PFloat 1), spec ''repetition_period_sec'' (PFloat 0)]"
| "schema Chirp = [spec ''amplitude'' (PFloat (8 / 10)), spec ''f0'' (PFloat 10), spec ''f1'' (PFloat 200),
                   spec ''duration_sec'' (PFloat 2), spec ''start_time_sec'' (PFloat 0)]"

fun comp_TYPE :: "comp_kind \<Rightarrow> string" where
  "comp_TYPE Noise = ''noise''"
| "comp_TYPE Sine = ''sine''"
| "comp_TYPE RectPulse = ''rect_pulse''"
| "comp_TYPE GaussPulse = ''gauss_pulse''"
| "comp_TYPE Chirp = ''chirp''"

text \<open>The display names are Cyrillic; a string is its UTF-8 bytes.\<close>

fun comp_NAME :: "comp_kind \<Rightarrow> string" where
  "comp_NAME Noise = [CHR 0xD0, CHR 0xA8, CHR 0xD1, CHR 0x83, CHR 0xD0, CHR 0xBC, CHR 0x20, CHR 0x28,
     CHR 0xD0, CHR 0xB3, CHR 0xD0, CHR 0xB0, CHR 0xD1, CHR 0x83, CHR 0xD1, CHR 0x81, CHR 0xD1, CHR 0x81,
     CHR 0xD0, CHR 0xBE, CHR 0xD0, CHR 0xB2, CHR 0x29]"
| "comp_NAME Sine = [CHR 0xD0, CHR 0xA1, CHR 0xD0, CHR 0xB8, CHR 0xD0, CHR 0xBD, CHR 0xD1, CHR 0x83,
     CHR 0xD1, CHR 0x81, CHR 0xD0, CHR 0xBE, CHR 0xD0, CHR 0xB8, CHR 0xD0, CHR 0xB4, CHR 0xD0, CHR 0xB0]"
| "comp_NAME RectPulse = [CHR 0xD0, CHR 0x9F, CHR 0xD1, CHR 0x80, CHR 0xD1, CHR 0x8F, CHR 0xD0, CHR 0xBC,
     CHR 0xD0, CHR 0xBE, CHR 0xD1, CHR 0x83, CHR 0xD0, CHR 0xB3, CHR 0xD0, CHR 0xBE, CHR 0xD0, CHR 0xBB,
     CHR 0xD1, CHR 0x8C, CHR 0xD0, CHR 0xBD, CHR 0xD1, CHR 0x8B, CHR 0xD0, CHR 0xB5, CHR 0x20, CHR 0xD0,
     CHR 0xB8, CHR 0xD0, CHR 0xBC, CHR 0xD0, CHR 0xBF, CHR 0xD1, CHR 0x83, CHR 0xD0, CHR 0xBB, CHR 0xD1,
     CHR 0x8C, CHR 0xD1, CHR 0x81, CHR 0xD1, CHR 0x8B]"
| "comp_NAME GaussPulse = [CHR 0xD0, CHR 0x93, CHR 0xD0, CHR 0xB0, CHR 0xD1, CHR 0x83, CHR 0xD1, CHR 0x81,
     CHR 0xD1, CHR 0x81, CHR 0xD0, CHR 0xBE, CHR 0xD0, CHR 0xB2, CHR 0xD1, CHR 0x8B, CHR 0x20, CHR 0xD0,
     CHR 0xB8, CHR 0xD0, CHR 0xBC, CHR 0xD0, CHR 0xBF, CHR 0xD1, CHR 0x83, CHR 0xD0, CHR 0xBB, CHR 0xD1,
     CHR 0x8C, CHR 0xD1, CHR 0x81, CHR 0xD1, CHR 0x8B]"
| "comp_NAME Chirp = [CHR 0xD0, CHR 0xA7, CHR 0xD0, CHR 0xB8, CHR 0xD1, CHR 0x80, CHR 0xD0, CHR 0xBF,
     CHR 0x2D, CHR 0xD1, CHR 0x81, CHR 0xD0, CHR 0xB2, CHR 0xD0, CHR 0xB8, CHR 0xD0, CHR 0xBF, CHR 0x20,
     CHR 0x28, CHR 0xD0, CHR 0xBB, CHR 0xD0, CHR 0xB8, CHR 0xD0, CHR 0xBD, CHR 0xD0, CHR 0xB5, CHR 0xD0,
     CHR 0xB9, CHR 0xD0, CHR 0xBD, CHR 0xD0, CHR 0xB0, CHR 0xD1, CHR 0x8F, CHR 0x20, CHR 0xD1, CHR 0x80,
     CHR 0xD0, CHR 0xB0, CHR 0xD0, CHR 0xB7, CHR 0xD0, CHR 0xB2, CHR 0xD0, CHR 0xB5, CHR 0xD1, CHR 0x80,
     CHR 0xD1, CHR 0x82, CHR 0xD0, CHR 0xBA, CHR 0xD0, CHR 0xB0, CHR 0x29]"

definition BUILTIN_COMPONENTS :: "string \<rightharpoonup> comp_kind" where
  "BUILTIN_COMPONENTS = map_of [(''noise'', Noise), (''sine'', Sine), (''rect_pulse'', RectPulse),
                                (''gauss_pulse'', GaussPulse), (''chirp'', Chirp)]"

text \<open>
  A component instance: the \<open>ComponentState\<close> (enabled flag and parameters) and, for the
  sine, the smoothing dictionaries \<open>_cur\<close> and \<open>_target\<close>; the other kinds have
  none, and carry empty ones here. The random generator of the noise component is not
  part of the model.
\<close>

record component =
  kind :: comp_kind
  enabled :: bool
  params :: params
  cur :: params
  target :: params

definition new_component :: "comp_kind \<Rightarrow> bool \<Rightarrow> params \<Rightarrow> component" where
  \<comment> \<open>\<open>cls(state)\<close>: the sine's constructor copies the parameters twice.\<close>
  "new_component kd en ps =
     \<lparr>kind = kd, enabled = en, params = ps,
      cur = (if kd = Sine then ps else Map.empty),
      target = (if kd = Sine then ps else Map.empty)\<rparr>"

definition update_params :: "component \<Rightarrow> params \<Rightarrow> component" where
  \<comment> \<open>\<open>dict.update\<close>: the new entries win.\<close>
  "update_params c new =
     (if kind c = Sine then c\<lparr>target := target c ++ new, params := params c ++ new\<rparr>
      else c\<lparr>params := params c ++ new\<rparr>)"

fun fill_defaults :: "param_spec list \<Rightarrow> params \<Rightarrow> params" where
  \<comment> \<open>\<open>for s in cls.schema(): if s.key not in params: params[s.key] = s.default\<close>\<close>
  "fill_defaults [] ps = ps"
| "fill_defaults (s # ss) ps =
     fill_defaults ss (if ps (key s) = None then ps(key s \<mapsto> default s) else ps)"

fun set_defaults :: "param_spec list \<Rightarrow> params \<Rightarrow> params" where
  \<comment> \<open>\<open>for s in cls.schema(): state.params[s.key] = s.default\<close>\<close>
  "set_defaults [] ps = ps"
| "set_defaults (s # ss) ps = set_defaults ss (ps(key s \<mapsto> default s))"

section \<open>core/realtime\_clock.py\<close>

text \<open>The logical clock is its sample count; the wall-clock reference serves the uptime only.\<close>

record realtime_clock =
  samples :: int

definition clock_reset :: "realtime_clock \<Rightarrow> realtime_clock" where
  "clock_reset k = k\<lparr>samples := 0\<rparr>"

definition advance :: "realtime_clock \<Rightarrow> int \<Rightarrow> realtime_clock" where
  "advance k n = k\<lparr>samples := samples k + n\<rparr>"

definition sample_index :: "realtime_clock \<Rightarrow> int" where
  "sample_index k = samples k"

section \<open>signal/signal\_engine.py\<close>

text \<open>
  The engine owns the clock and the ordered component list. Its mutex makes each control
  operation atomic and is not modelled; the preallocated chunk buffer is overwritten with
  zeros at the start of every chunk, so a chunk is built here on a fresh zero list.
  \<open>generate\<close> is a method of the component's class: the engine takes it as the
  argument \<open>gen\<close>, which returns the samples or the exception raised, and the component
  as the call left it.
\<close>

definition MAX_CHUNK :: int where
  "MAX_CHUNK = 131072"

record engine =
  clock :: realtime_clock
  components :: "component list"
  fs :: real
  chunk_size :: int
  amplitude_clip :: real
  paused :: bool

type_synonym generator = "component \<Rightarrow> real \<Rightarrow> int \<Rightarrow> real \<Rightarrow> (py_error + real list) \<times> component"

definition SignalEngine_init :: "realtime_clock \<Rightarrow> engine" where
  "SignalEngine_init k =
     \<lparr>clock = k, components = [], fs = 2000, chunk_size = 256, amplitude_clip = 0, paused = True\<rparr>"

definition set_global :: "engine \<Rightarrow> real option \<Rightarrow> int option \<Rightarrow> real option \<Rightarrow> engine" where
  "set_global e fs_opt chunk_opt clip_opt =
     (let e1 = (case fs_opt of None \<Rightarrow> e | Some f \<Rightarrow> e\<lparr>fs := f\<rparr>);
          e2 = (case chunk_opt of None \<Rightarrow> e1 | Some n \<Rightarrow> e1\<lparr>chunk_size := n\<rparr>)
      in (case clip_opt of None \<Rightarrow> e2 | Some c \<Rightarrow> e2\<lparr>amplitude_clip := c\<rparr>))"

definition get_global :: "engine \<Rightarrow> real \<times> int" where
  "get_global e = (fs e, chunk_size e)"

definition play :: "engine \<Rightarrow> engine" where
  "play e = e\<lparr>paused := False\<rparr>"

definition pause :: "engine \<Rightarrow> engine" where
  "pause e = e\<lparr>paused := True\<rparr>"

definition is_paused :: "engine \<Rightarrow> bool" where
  "is_paused e = paused e"

definition reset :: "engine \<Rightarrow> engine" where
  "reset e = e\<lparr>clock := clock_reset (clock e)\<rparr>"

definition add_component :: "engine \<Rightarrow> string \<Rightarrow> params option \<Rightarrow> bool \<Rightarrow> py_error + (engine \<times> nat)" where
  \<comment> \<open>An unknown type raises KeyError; \<open>if params:\<close> skips both None and the empty dict.\<close>
  "add_component e comp_type ps_opt en =
     (case BUILTIN_COMPONENTS comp_type of
        None \<Rightarrow> Inl KeyError
      | Some kd \<Rightarrow>
          (let ps = set_defaults (schema kd) Map.empty;
               ps' = (case ps_opt of None \<Rightarrow> ps | Some new \<Rightarrow> ps ++ new);
               obj = new_component kd en ps'
           in Inr (e\<lparr>components := components e @ [obj]\<rparr>, length (components e))))"

definition remove_component :: "engine \<Rightarrow> int \<Rightarrow> engine" where
  "remove_component e idx =
     (if 0 \<le> idx \<and> idx < int (length (components e))
      then e\<lparr>components := take (nat idx) (components e) @ drop (Suc (nat idx)) (components e)\<rparr>
      else e)"

definition set_component_enabled :: "engine \<Rightarrow> int \<Rightarrow> bool \<Rightarrow> engine" where
  "set_component_enabled e idx en =
     (if 0 \<le> idx \<and> idx < int (length (components e))
      then e\<lparr>components := (components e)[nat idx := (components e ! nat idx)\<lparr>enabled := en\<rparr>]\<rparr>
      else e)"

definition update_component_params :: "engine \<Rightarrow> int \<Rightarrow> params \<Rightarrow> engine" where
  "update_component_params e idx new =
     (if 0 \<le> idx \<and> idx < int (length (components e))
      then e\<lparr>components := (components e)[nat idx := update_params (components e ! nat idx) new]\<rparr>
      else e)"

text \<open>
  A snapshot entry is a dictionary with the keys \<open>type\<close>, \<open>name\<close>, \<open>enabled\<close> and
  \<open>params\<close>; a preset file may leave any of them out, so each field is optional.
\<close>

record snap_entry =
  e_type :: "pval option"
  e_name :: "string option"
  e_enabled :: "pval option"
  e_params :: "params option"

definition snapshot_of :: "component \<Rightarrow> snap_entry" where
  "snapshot_of c =
     \<lparr>e_type = Some (PStr (comp_TYPE (kind c))), e_name = Some (comp_NAME (kind c)),
      e_enabled = Some (PBool (enabled c)), e_params = Some (params c)\<rparr>"

definition snapshot_components :: "engine \<Rightarrow> snap_entry list" where
  "snapshot_components e = map snapshot_of (components e)"

definition lookup_type :: "pval option \<Rightarrow> comp_kind option" where
  \<comment> \<open>\<open>c.get("type")\<close> looked up in \<open>BUILTIN_COMPONENTS\<close>: only a string can be a key of it.\<close>
  "lookup_type t = (case t of Some (PStr s) \<Rightarrow> BUILTIN_COMPONENTS s | _ \<Rightarrow> None)"

definition build_component :: "comp_kind \<Rightarrow> snap_entry \<Rightarrow> component" where
  "build_component kd c =
     (let en = (case e_enabled c of None \<Rightarrow> True | Some v \<Rightarrow> py_bool v);
          ps = (case e_params c of None \<Rightarrow> Map.empty | Some d \<Rightarrow> d)
      in new_component kd en (fill_defaults (schema kd) ps))"

fun rebuild :: "component list \<Rightarrow> snap_entry list \<Rightarrow> component list" where
  \<comment> \<open>The loop of \<open>replace_components\<close>, appending to the list built so far.\<close>
  "rebuild acc [] = acc"
| "rebuild acc (c # cs) =
     (case lookup_type (e_type c) of
        None \<Rightarrow> rebuild acc cs
      | Some kd \<Rightarrow> rebuild (acc @ [build_component kd c]) cs)"

definition replace_components :: "engine \<Rightarrow> snap_entry list \<Rightarrow> engine" where
  "replace_components e components_snap = e\<lparr>components := rebuild [] components_snap\<rparr>"

definition iadd :: "real list \<Rightarrow> real list \<Rightarrow> py_error + real list" where
  \<comment> \<open>NumPy's in-place \<open>x += y\<close>: equal lengths, or a one-element \<open>y\<close> broadcast.\<close>
  "iadd x y =
     (if length y = length x then Inr (map2 (+) x y)
      else if length y = 1 then Inr (map (\<lambda>v. v + hd y) x)
      else Inl ValueError)"

fun mix :: "generator \<Rightarrow> component list \<Rightarrow> real \<Rightarrow> int \<Rightarrow> real \<Rightarrow> real list
              \<Rightarrow> (py_error + real list) \<times> component list" where
  \<comment> \<open>\<open>for c in comps: x += c.generate(t0=t0, n=n, fs=fs)\<close>; an exception ends the loop.\<close>
  "mix gen [] t0 n f x = (Inr x, [])"
| "mix gen (c # cs) t0 n f x =
     (case gen c t0 n f of
        (Inl err, c') \<Rightarrow> (Inl err, c' # cs)
      | (Inr y, c') \<Rightarrow>
          (case iadd x y of
             Inl err \<Rightarrow> (Inl err, c' # cs)
           | Inr x' \<Rightarrow> (case mix gen cs t0 n f x' of (r, cs') \<Rightarrow> (r, c' # cs'))))"

definition view_len :: "int \<Rightarrow> nat" where
  \<comment> \<open>The length of \<open>_chunk_buf[:n]\<close> for \<open>n \<le> MAX_CHUNK\<close>; a negative \<open>n\<close> counts from the end.\<close>
  "view_len n = (if 0 \<le> n then nat n else nat (MAX_CHUNK + n))"

definition np_clip :: "real \<Rightarrow> real \<Rightarrow> real \<Rightarrow> real" where
  "np_clip lo hi v = min (max v lo) hi"

definition generate_chunk :: "generator \<Rightarrow> engine \<Rightarrow> (py_error + (real list \<times> real)) \<times> engine" where
  "generate_chunk gen e =
     (if fs e = 0 then (Inl ZeroDivisionError, e)
      else
        (let t0 = real_of_int (sample_index (clock e)) / fs e in
         if paused e then (Inr ([], t0), e)
         else
           (let n = min (chunk_size e) MAX_CHUNK;
                x0 = replicate (view_len n) 0
            in case mix gen (components e) t0 n (fs e) x0 of
                 (Inl err, cs') \<Rightarrow> (Inl err, e\<lparr>components := cs'\<rparr>)
               | (Inr x, cs') \<Rightarrow>
                   (let x' = (if amplitude_clip e \<noteq> 0 \<and> amplitude_clip e > 0
                              then map (np_clip (- amplitude_clip e) (amplitude_clip e)) x
                              else x)
                    in (Inr (x', t0), e\<lparr>components := cs', clock := advance (clock e) n\<rparr>)))))"

text \<open>
  Every component the engine builds (\<open>add_component\<close>, \<open>replace_components\<close>) holds a
  value for each key of its kind's schema, and no operation removes a key.
\<close>

definition wf_component :: "component \<Rightarrow> bool" where
  "wf_component c = list_all (\<lambda>s. params c (key s) \<noteq> None) (schema (kind c))"

definition wf_engine :: "engine \<Rightarrow> bool" where
  "wf_engine e = list_all wf_component (components e)"

section \<open>signal/components/sine.py\<close>

text \<open>
  \<open>_smooth\<close> reads the current and the target value of one key through \<open>float()\<close>,
  which may raise, and stores the new current value as a float. The samples are real
  numbers: at a sample rate of zero NumPy yields infinities and NaN, which the model
  does not represent, so the sample values are meaningful at a nonzero rate only.
\<close>

definition smooth :: "component \<Rightarrow> string \<Rightarrow> real \<Rightarrow> py_error + component" where
  "smooth c k alpha =
     (case py_float (dict_get (cur c) k (PFloat 0)) of
        Inl err \<Rightarrow> Inl err
      | Inr cv \<Rightarrow>
          (case py_float (dict_get (target c) k (PFloat cv)) of
             Inl err \<Rightarrow> Inl err
           | Inr tv \<Rightarrow> Inr (c\<lparr>cur := (cur c)(k \<mapsto> PFloat (cv + alpha * (tv - cv)))\<rparr>)))"

fun smooth_all :: "component \<Rightarrow> string list \<Rightarrow> real \<Rightarrow> (py_error + unit) \<times> component" where
  \<comment> \<open>The consecutive \<open>_smooth\<close> calls; the first exception ends them.\<close>
  "smooth_all c [] alpha = (Inr (), c)"
| "smooth_all c (k # ks) alpha =
     (case smooth c k alpha of
        Inl err \<Rightarrow> (Inl err, c)
      | Inr c' \<Rightarrow> smooth_all c' ks alpha)"

definition smoothed_keys :: "string list" where
  "smoothed_keys = [''amplitude'', ''frequency'', ''phase'', ''dc'']"

definition np_zeros :: "int \<Rightarrow> py_error + real list" where
  \<comment> \<open>\<open>np.zeros(n)\<close> raises ValueError on a negative \<open>n\<close>.\<close>
  "np_zeros n = (if n < 0 then Inl ValueError else Inr (replicate (nat n) 0))"

definition sine_wave :: "real \<Rightarrow> real \<Rightarrow> real \<Rightarrow> real \<Rightarrow> real \<Rightarrow> int \<Rightarrow> real \<Rightarrow> real list" where
  \<comment> \<open>\<open>dc + A * sin(2 pi f t + ph)\<close> at \<open>t = t0 + arange(n) / fs\<close>; \<open>arange\<close> of a
      negative \<open>n\<close> is empty.\<close>
  "sine_wave A f ph dc t0 n f_s =
     map (\<lambda>i. dc + A * sin (2 * pi * f * (t0 + real i / f_s) + ph)) [0..<nat n]"

definition sine_alpha :: "int \<Rightarrow> int \<Rightarrow> real \<Rightarrow> py_error + real" where
  \<comment> \<open>\<open>1.0 if smooth_ms <= 0 else min(1.0, (n / fs) / (smooth_ms / 1000.0))\<close>; the
      division by \<open>fs\<close> is evaluated, and can raise, only in the second branch.\<close>
  "sine_alpha smooth_ms n f_s =
     (if smooth_ms \<le> 0 then Inr 1
      else if f_s = 0 then Inl ZeroDivisionError
      else Inr (min 1 ((real_of_int n / f_s) / (real_of_int smooth_ms / 1000))))"

definition SineComponent_generate :: generator where
  "SineComponent_generate c t0 n f_s =
     (if \<not> enabled c then (np_zeros n, c)
      else
        (case py_int (dict_get (params c) ''smooth_ms'' (PInt 150)) of
           Inl err \<Rightarrow> (Inl err, c)
         | Inr smooth_ms \<Rightarrow>
             (let c1 = (if smooth_ms \<le> 0 then c\<lparr>cur := target c\<rparr> else c) in
              case sine_alpha smooth_ms n f_s of
                Inl err \<Rightarrow> (Inl err, c1)
              | Inr alpha \<Rightarrow>
                  (case smooth_all c1 smoothed_keys alpha of
                     (Inl err, c2) \<Rightarrow> (Inl err, c2)
                   | (Inr u, c2) \<Rightarrow>
                       (case py_float (dict_get (cur c2) ''amplitude'' (PFloat 1)) of
                          Inl err \<Rightarrow> (Inl err, c2)
                        | Inr A \<Rightarrow>
                       (case py_float (dict_get (cur c2) ''frequency'' (PFloat 5)) of
                          Inl err \<Rightarrow> (Inl err, c2)
                        | Inr f \<Rightarrow>
                       (case py_float (dict_get (cur c2) ''phase'' (PFloat 0)) of
                          Inl err \<Rightarrow> (Inl err, c2)
                        | Inr ph \<Rightarrow>
                       (case py_float (dict_get (cur c2) ''dc'' (PFloat 0)) of
                          Inl err \<Rightarrow> (Inl err, c2)
                        | Inr dc \<Rightarrow> (Inr (sine_wave A f ph dc t0 n f_s), c2)))))))))"

definition cur_val :: "component \<Rightarrow> string \<Rightarrow> py_error + real" where
  \<comment> \<open>\<open>float(self._cur.get(key, 0.0))\<close>\<close>
  "cur_val c k = py_float (dict_get (cur c) k (PFloat 0))"

definition target_val :: "component \<Rightarrow> string \<Rightarrow> real \<Rightarrow> py_error + real" where
  \<comment> \<open>\<open>float(self._target.get(key, c))\<close>\<close>
  "target_val c k cv = py_float (dict_get (target c) k (PFloat cv))"

section \<open>core/plugin\_manager.py\<close>

text \<open>
  What \<open>importlib\<close> and the file system return is the environment of the manager: an
  import either raises or yields a module, whose attributes \<open>WaveletPlugin\<close> and
  \<open>PLUGIN_META\<close> may be missing; calling the class either raises or yields the plugin
  object. Only exceptions derived from \<open>Exception\<close> are values of \<open>py_error\<close>. A
  declared id is any Python value: a string, another hashable value (identified up to
  Python equality by a number) or an unhashable one.
\<close>

datatype id_value = IdStr string | IdHashable nat | IdUnhashable

datatype plugin_key = KStr string | KOther nat

datatype plugin_meta = MetaDict "string \<rightharpoonup> id_value" | MetaNotDict

type_synonym plugin_obj = nat

record py_module =
  mod_name :: string
  mod_WaveletPlugin :: "(py_error + plugin_obj) option"
  mod_PLUGIN_META :: "plugin_meta option"

record plugin_info =
  info_id :: id_value
  info_meta :: plugin_meta
  info_module :: py_module
  info_plugin_obj :: plugin_obj

datatype log_record = LogInfo string id_value | LogException string py_error

record environment =
  import_module :: "string \<Rightarrow> py_error + py_module"
  plugin_folder :: "string list option"

record plugin_manager =
  wavelet_plugins :: "plugin_key \<rightharpoonup> plugin_info"
  log :: "log_record list"

definition meta_get_id :: "plugin_meta \<Rightarrow> string \<Rightarrow> py_error + id_value" where
  \<comment> \<open>\<open>meta.get("id", plugin_id)\<close>; an object without \<open>get\<close> raises AttributeError.\<close>
  "meta_get_id meta plugin_id =
     (case meta of
        MetaNotDict \<Rightarrow> Inl AttributeError
      | MetaDict d \<Rightarrow> (case d ''id'' of None \<Rightarrow> Inr (IdStr plugin_id) | Some v \<Rightarrow> Inr v))"

fun key_of :: "id_value \<Rightarrow> plugin_key option" where
  "key_of (IdStr s) = Some (KStr s)"
| "key_of (IdHashable h) = Some (KOther h)"
| "key_of IdUnhashable = None"

definition log_failure :: "plugin_manager \<Rightarrow> string \<Rightarrow> py_error \<Rightarrow> plugin_manager" where
  \<comment> \<open>The \<open>except Exception\<close> handler.\<close>
  "log_failure pm modname err = pm\<lparr>log := log pm @ [LogException modname err]\<rparr>"

definition load_wavelet_module :: "environment \<Rightarrow> plugin_manager \<Rightarrow> string \<Rightarrow> string \<Rightarrow> plugin_manager" where
  "load_wavelet_module env pm modname plugin_id =
     (case import_module env modname of
        Inl err \<Rightarrow> log_failure pm modname err
      | Inr m \<Rightarrow>
          (case (mod_WaveletPlugin m, mod_PLUGIN_META m) of
             (None, _) \<Rightarrow> log_failure pm modname ValueError
           | (Some cls, None) \<Rightarrow> log_failure pm modname ValueError
           | (Some cls, Some meta) \<Rightarrow>
               (case cls of
                  Inl err \<Rightarrow> log_failure pm modname err
                | Inr obj \<Rightarrow>
                    (case meta_get_id meta plugin_id of
                       Inl err \<Rightarrow> log_failure pm modname err
                     | Inr pid \<Rightarrow>
                         (let info = \<lparr>info_id = pid, info_meta = meta, info_module = m,
                                      info_plugin_obj = obj\<rparr>;
                              pm1 = (if pid \<noteq> IdStr plugin_id
                                     then pm\<lparr>wavelet_plugins := (wavelet_plugins pm)(KStr plugin_id \<mapsto> info)\<rparr>
                                     else pm)
                          in case key_of pid of
                               None \<Rightarrow> log_failure pm1 modname TypeError
                             | Some k \<Rightarrow>
                                 pm1\<lparr>wavelet_plugins := (wavelet_plugins pm1)(k \<mapsto> info),
                                     log := log pm1 @ [LogInfo modname pid]\<rparr>)))))"

fun load_all :: "environment \<Rightarrow> plugin_manager \<Rightarrow> (string \<times> string) list \<Rightarrow> plugin_manager" where
  \<comment> \<open>\<open>for modname, pid in ...: self._load_wavelet_module(modname, plugin_id=pid)\<close>\<close>
  "load_all env pm [] = pm"
| "load_all env pm ((modname, pid) # rest) = load_all env (load_wavelet_module env pm modname pid) rest"

definition builtin_mods :: "(string \<times> string) list" where
  "builtin_mods = [(''wavelets.builtins.cwt_morlet'', ''builtin:cwt_morlet''),
                   (''wavelets.builtins.dwt_wpt'', ''builtin:dwt_wpt'')]"

definition endswith :: "string \<Rightarrow> string \<Rightarrow> bool" where
  "endswith s suf = (length suf \<le> length s \<and> drop (length s - length suf) s = suf)"

definition startswith :: "string \<Rightarrow> string \<Rightarrow> bool" where
  "startswith s pre = (take (length pre) s = pre)"

definition external_mods :: "environment \<Rightarrow> (string \<times> string) list" where
  \<comment> \<open>The files of \<open>plugins/wavelets\<close> that end in \<open>.py\<close> and do not start with an
      underscore, in the order \<open>os.listdir\<close> gives them; none when the folder is absent.\<close>
  "external_mods env =
     (case plugin_folder env of
        None \<Rightarrow> []
      | Some files \<Rightarrow>
          map (\<lambda>fn. (let modname = ''plugins.wavelets.'' @ take (length fn - 3) fn
                      in (modname, ''plugin:'' @ modname)))
              (filter (\<lambda>fn. \<not> (\<not> endswith fn ''.py'' \<or> startswith fn ''_'')) files))"

definition load_builtin_wavelets :: "environment \<Rightarrow> plugin_manager \<Rightarrow> plugin_manager" where
  "load_builtin_wavelets env pm = load_all env pm builtin_mods"

definition load_external_wavelets :: "environment \<Rightarrow> plugin_manager \<Rightarrow> plugin_manager" where
  "load_external_wavelets env pm = load_all env pm (external_mods env)"

definition reload_all :: "environment \<Rightarrow> plugin_manager \<Rightarrow> plugin_manager" where
  "reload_all env pm =
     load_external_wavelets env (load_builtin_wavelets env (pm\<lparr>wavelet_plugins := Map.empty\<rparr>))"

definition get_wavelet :: "plugin_manager \<Rightarrow> plugin_key \<Rightarrow> plugin_info option" where
  "get_wavelet pm plugin_id = wavelet_plugins pm plugin_id"

definition load_fails :: "environment \<Rightarrow> string \<Rightarrow> bool" where
  \<comment> \<open>Importing the module raises, it lacks one of the two attributes, or calling its
      class raises.\<close>
  "load_fails env modname =
     (case import_module env modname of
        Inl err \<Rightarrow> True
      | Inr m \<Rightarrow>
          (case mod_WaveletPlugin m of
             None \<Rightarrow> True
           | Some (Inl err) \<Rightarrow> True
           | Some (Inr obj) \<Rightarrow> mod_PLUGIN_META m = None))"

section \<open>wavelets/builtins\<close>

text \<open>
  PyWavelets is an external library: the continuous transform \<open>pywt.cwt\<close> and the
  central frequency of a wavelet are arguments of the model, each returning its value or
  the exception it raises. The rest of the discrete plugin, past its guard on short
  windows, runs PyWavelets decompositions and is the argument \<open>long\<close>. Of a
  \<open>WaveletResult\<close> the image, the two axes and the axis label are kept.
\<close>

record wavelet_result =
  image :: "real list list"
  y_axis :: "real list"
  x_axis :: "real list"
  label_y :: string

definition np_linspace :: "real \<Rightarrow> real \<Rightarrow> nat \<Rightarrow> real list" where
  "np_linspace a b n =
     (if n = 1 then [a] else map (\<lambda>i. a + real i * ((b - a) / real (n - 1))) [0..<n])"

definition np_geomspace :: "real \<Rightarrow> real \<Rightarrow> nat \<Rightarrow> real list" where
  \<comment> \<open>For positive end points, as the frequency grid has them.\<close>
  "np_geomspace a b n =
     (if n = 1 then [a] else map (\<lambda>i. a * (b / a) powr (real i / real (n - 1))) [0..<n])"

definition lower_char :: "char \<Rightarrow> char" where
  "lower_char c = (let k = (of_char c :: nat) in if 65 \<le> k \<and> k \<le> 90 then char_of (k + 32) else c)"

definition spacing_is_log :: "pval \<Rightarrow> bool" where
  \<comment> \<open>\<open>str(spacing).lower() == "log"\<close>: the text of no other value than a string is
      \<open>log\<close>.\<close>
  "spacing_is_log v = (case v of PStr s \<Rightarrow> map lower_char s = ''log'' | _ \<Rightarrow> False)"

definition freq_grid :: "real \<Rightarrow> real \<Rightarrow> int \<Rightarrow> pval \<Rightarrow> real list" where
  "freq_grid f_min f_max n spacing =
     (let f_min' = max f_min (1 / 1000000);
          f_max' = max f_max (f_min' * (1001 / 1000));
          n' = nat (max 2 n)
      in if spacing_is_log spacing then np_geomspace f_min' f_max' n'
         else np_linspace f_min' f_max' n')"

definition scales_from_freqs :: "real \<Rightarrow> real list \<Rightarrow> real \<Rightarrow> real list" where
  \<comment> \<open>With \<open>cf\<close> the central frequency of the wavelet.\<close>
  "scales_from_freqs cf freqs_hz f_s =
     map (\<lambda>f. max ((cf * f_s) / max f (1 / 1000000)) (1 / 1000000)) freqs_hz"

definition img_max :: "real list list \<Rightarrow> real" where
  "img_max img = Max (set (concat img))"

definition img_mean :: "real list list \<Rightarrow> real" where
  "img_mean img = sum_list (concat img) / real (length (concat img))"

definition img_std :: "real list list \<Rightarrow> real" where
  "img_std img = sqrt (sum_list (map (\<lambda>v. (v - img_mean img)\<^sup>2) (concat img)) / real (length (concat img)))"

definition normalize_cwt :: "pval \<Rightarrow> real list list \<Rightarrow> real list list" where
  \<comment> \<open>\<open>img.size and np.nanmax(img) > 0\<close> guards the maximum of an empty image; the mean
      of an empty image is NaN, which is not above the threshold.\<close>
  "normalize_cwt mode img =
     (if mode = PStr ''max'' then
        (let m = (if concat img \<noteq> [] \<and> img_max img > 0 then img_max img else 1)
         in if m > 0 then map (map (\<lambda>v. v / m)) img else img)
      else if mode = PStr ''zscore'' then
        (if concat img \<noteq> [] \<and> img_std img > 1 / 1000000000
         then map (map (\<lambda>v. (v - img_mean img) / img_std img)) img else img)
      else img)"

definition cwt_transform ::
  "(real list \<Rightarrow> real list \<Rightarrow> pval \<Rightarrow> real \<Rightarrow> py_error + complex list list)
     \<Rightarrow> (pval \<Rightarrow> py_error + real) \<Rightarrow> real list \<Rightarrow> real \<Rightarrow> params \<Rightarrow> py_error + wavelet_result" where
  "cwt_transform pywt_cwt central_frequency x f_s ps =
     (let wname = dict_get ps ''wavelet'' (PStr ''morl'');
          magnitude = dict_get ps ''magnitude'' (PStr ''abs'');
          normalize = dict_get ps ''normalize'' (PStr ''none'')
      in case py_float (dict_get ps ''f_min'' (PFloat 5)) of
           Inl err \<Rightarrow> Inl err
         | Inr f_min \<Rightarrow>
      (case py_float (dict_get ps ''f_max'' (PFloat (min (f_s / 2) 300))) of
           Inl err \<Rightarrow> Inl err
         | Inr f_max0 \<Rightarrow>
      (case py_int (dict_get ps ''n_freqs'' (PInt 128)) of
           Inl err \<Rightarrow> Inl err
         | Inr n_freqs \<Rightarrow>
      (let f_max = min f_max0 (f_s / 2 - 1 / 1000000);
           spacing = dict_get ps ''freq_spacing'' (PStr ''linear'');
           freqs_target = freq_grid f_min f_max n_freqs spacing
       in case central_frequency wname of
            Inl err \<Rightarrow> Inl err
          | Inr cf \<Rightarrow>
              (let scales_desc = scales_from_freqs cf freqs_target f_s;
                   scales_asc = rev scales_desc
               in if f_s = 0 then Inl ZeroDivisionError
                  else
                    (case pywt_cwt x scales_asc wname (1 / f_s) of
                       Inl err \<Rightarrow> Inl err
                     | Inr coefs0 \<Rightarrow>
                         (let coefs = rev coefs0;
                              img = (if magnitude = PStr ''abs'' then map (map cmod) coefs
                                     else map (map (\<lambda>z. (cmod z)\<^sup>2)) coefs);
                              img' = normalize_cwt normalize img;
                              xs = map (\<lambda>i. real i / f_s) [0..<length x]
                          in Inr \<lparr>image = img', y_axis = freqs_target, x_axis = xs,
                                  label_y = ''Hz''\<rparr>)))))))"

definition dwt_transform ::
  "(real list \<Rightarrow> real \<Rightarrow> params \<Rightarrow> py_error + wavelet_result)
     \<Rightarrow> real list \<Rightarrow> real \<Rightarrow> params \<Rightarrow> py_error + wavelet_result" where
  "dwt_transform long x f_s ps =
     (let n = length x in
      if n < 16 then
        (if f_s = 0 then Inl ZeroDivisionError
         else Inr \<lparr>image = [replicate (max n 1) 0], y_axis = [0],
                   x_axis = np_linspace 0 (real n / f_s) (max n 1), label_y = ''level/node''\<rparr>)
      else long x f_s ps)"

definition trivial_result :: "wavelet_result \<Rightarrow> bool" where
  \<comment> \<open>One row, of zeros only.\<close>
  "trivial_result r = (length (image r) = 1 \<and> length (y_axis r) = 1 \<and> set (concat (image r)) \<subseteq> {0})"

section \<open>Ring buffer: the most recent samples\<close>

text \<open>
  The storage read once around from the cursor is the last \<open>capacity\<close> elements of
  everything written so far; \<open>append\<close> keeps that, and \<open>get_last\<close> reads the end of it.
\<close>

lemma lastn_length [simp]: "length (lastn k xs) = min k (length xs)"
  by (simp add: lastn_def)

lemma lastn_all: "length xs \<le> k \<Longrightarrow> lastn k xs = xs"
  by (simp add: lastn_def)

lemma lastn_append_short: "k \<le> length ys \<Longrightarrow> lastn k (xs @ ys) = lastn k ys"
  by (simp add: lastn_def)

lemma lastn_append_long: "length ys \<le> k \<Longrightarrow> lastn k (xs @ ys) = lastn (k - length ys) xs @ ys"
  by (simp add: lastn_def)

lemma lastn_lastn: "j \<le> k \<Longrightarrow> lastn j (lastn k xs) = lastn j xs"
proof -
  assume jk: "j \<le> k"
  have "length xs - (length xs - k + j) + (length xs - k) = length xs - j"
    using jk by arith
  then show ?thesis by (simp add: lastn_def)
qed

lemma lastn_cong_le:
  assumes "lastn k xs = lastn k ys" "j \<le> k"
  shows "lastn j xs = lastn j ys"
  by (metis assms lastn_lastn)

lemma length_unrolled: "length (unrolled s) = length (buf s)"
  by (simp add: unrolled_def)

lemma append_rb_unrolled:
  assumes "wf_ring s"
  shows "\<exists>s'. append_rb s x = Inr s' \<and> wf_ring s' \<and> capacity s' = capacity s
           \<and> filled s' = min (capacity s) (filled s + length x)
           \<and> unrolled s' = lastn (capacity s) (unrolled s @ x)"
proof -
  let ?C = "capacity s" and ?w = "write_cur s" and ?n = "length x"
  from assms have len: "length (buf s) = ?C" and w: "?w < ?C" and f: "filled s \<le> ?C"
    by (simp_all add: wf_ring_def)
  consider (empty) "?n = 0" | (big) "?n \<noteq> 0" "?n \<ge> ?C" | (fit) "?n \<noteq> 0" "?n < ?C" "?w + ?n \<le> ?C"
    | (wrap) "?n \<noteq> 0" "?n < ?C" "?w + ?n > ?C" by linarith
  then show ?thesis
  proof cases
    case empty
    then show ?thesis using assms len f
      by (simp add: append_rb_def lastn_def unrolled_def)
  next
    case big
    then show ?thesis using len w f
      by (simp add: append_rb_def assign_slice_def neg_slice_from_def wf_ring_def unrolled_def lastn_def)
  next
    case fit
    have asg: "assign_slice (buf s) ?w (?w + ?n) x = Inr (take ?w (buf s) @ x @ drop (?w + ?n) (buf s))"
      using fit len w by (simp add: assign_slice_def Let_def min_def max_def)
    let ?b = "take ?w (buf s) @ x @ drop (?w + ?n) (buf s)"
    let ?s' = "s\<lparr>buf := ?b, write_cur := (?w + ?n) mod ?C, filled := min ?C (filled s + ?n)\<rparr>"
    have res: "append_rb s x = Inr ?s'"
      using fit asg by (simp add: append_rb_def Let_def)
    have lb: "length ?b = ?C" using fit len w by simp
    have wf': "wf_ring ?s'" using lb w by (simp add: wf_ring_def)
    have want: "lastn ?C (unrolled s @ x) = drop (?w + ?n) (buf s) @ take ?w (buf s) @ x"
      using fit len w by (simp add: lastn_def unrolled_def add.commute)
    have got: "unrolled ?s' = drop (?w + ?n) (buf s) @ take ?w (buf s) @ x"
    proof (cases "?w + ?n = ?C")
      case True
      then show ?thesis using len by (simp add: unrolled_def)
    next
      case False
      with fit have lt: "?w + ?n < ?C" by simp
      then show ?thesis using len by (simp add: unrolled_def)
    qed
    show ?thesis using res wf' want got by simp
  next
    case wrap
    define k where "k = ?C - ?w"
    define w' where "w' = ?w + ?n - ?C"
    define b1 where "b1 = take ?w (buf s) @ take k x"
    define b where "b = drop k x @ drop w' b1"
    have kn: "k < ?n" "0 < k" "w' < ?w" "w' + k = ?n" "w' < ?C"
      using wrap w by (simp_all add: k_def w'_def)
    have a1: "assign_slice (buf s) ?w (length (buf s)) (take k x) = Inr b1"
      using kn len w by (simp add: assign_slice_def Let_def min_def max_def b1_def k_def)
    have lb1: "length b1 = ?C" using kn len w by (simp add: b1_def k_def)
    have l2: "length (drop k x) = w'" using kn by simp
    have a2: "assign_slice b1 0 w' (drop k x) = Inr b"
      unfolding assign_slice_def Let_def using l2 kn lb1 by (simp add: min_def b_def)
    let ?s' = "s\<lparr>buf := b, write_cur := (?w + ?n) mod ?C, filled := min ?C (filled s + ?n)\<rparr>"
    have res: "append_rb s x = Inr ?s'"
      using wrap a1 a2 by (simp add: append_rb_def Let_def k_def[symmetric] w'_def[symmetric])
    have md: "(?w + ?n) mod ?C = w'"
      using wrap w by (simp add: mod_if w'_def)
    have lb: "length b = ?C" using kn lb1 l2 by (simp add: b_def)
    have wf': "wf_ring ?s'" using lb w by (simp add: wf_ring_def)
    have db1: "drop w' b1 = drop w' (take ?w (buf s)) @ take k x"
      using kn len w by (simp add: b1_def)
    have got: "unrolled ?s' = drop w' (take ?w (buf s)) @ x"
      using md l2 db1 by (simp add: unrolled_def b_def)
    have "length (unrolled s @ x) - ?C = ?n" using len by (simp add: unrolled_def)
    then have "lastn ?C (unrolled s @ x) = drop ?n (unrolled s @ x)"
      by (simp only: lastn_def)
    also have "\<dots> = drop ?n (drop ?w (buf s) @ take ?w (buf s)) @ x"
      using wrap len by (simp add: unrolled_def)
    also have "drop ?n (drop ?w (buf s) @ take ?w (buf s)) = drop w' (take ?w (buf s))"
      using kn len w wrap by (simp add: w'_def add.commute)
    finally have want: "lastn ?C (unrolled s @ x) = drop w' (take ?w (buf s)) @ x" .
    show ?thesis using res wf' want got by simp
  qed
qed


lemma get_last_unrolled:
  assumes "wf_ring s"
  shows "get_last s k = Inr (lastn (nat (min k (int (filled s)))) (unrolled s))"
proof (cases "min k (int (filled s)) \<le> 0")
  case True
  then show ?thesis by (simp add: get_last_def lastn_def)
next
  case False
  let ?C = "capacity s" and ?w = "write_cur s"
  from assms have len: "length (buf s) = ?C" and w: "?w < ?C" and f: "filled s \<le> ?C"
    by (simp_all add: wf_ring_def)
  define m where "m = nat (min k (int (filled s)))"
  have m: "0 < m" "m \<le> ?C" "min k (int (filled s)) = int m"
    using False f by (auto simp add: m_def min_def split: if_splits)
  show ?thesis
  proof (cases "m \<le> ?w")
    case True
    have "(int ?w - int m) mod int ?C = int (?w - m)"
      using True w by simp
    then have start: "nat ((int ?w - int m) mod int ?C) = ?w - m" by simp
    have "lastn m (unrolled s) = drop (?w - m) (take ?w (buf s))"
      using True m w len by (simp add: lastn_def unrolled_def)
    also have "\<dots> = take m (drop (?w - m) (buf s))"
      using True by (simp add: drop_take)
    finally show ?thesis
      using False m True w start by (simp add: get_last_def Let_def m_def[symmetric])
  next
    case False
    then have gt: "?w < m" by simp
    have "(int ?w - int m) mod int ?C = int (?C + ?w - m)"
    proof -
      have "(int ?w - int m) mod int ?C = (int ?w - int m + int ?C) mod int ?C" by simp
      also have "\<dots> = int ?w - int m + int ?C"
        using gt m w by (intro mod_pos_pos_trivial) simp_all
      finally show ?thesis using gt m by simp
    qed
    then have start: "nat ((int ?w - int m) mod int ?C) = ?C + ?w - m" by simp
    have "lastn m (unrolled s) = drop (?C + ?w - m) (buf s) @ take ?w (buf s)"
      using gt m w len by (simp add: lastn_def unrolled_def)
    moreover have "\<not> ?C + ?w - m < ?w" using m by simp
    ultimately show ?thesis
      using \<open>\<not> min k (int (filled s)) \<le> 0\<close> m gt w start
      by (simp add: get_last_def Let_def m_def[symmetric])
  qed
qed

lemma appends_inv:
  assumes "wf_ring s" "filled s = min (capacity s) (length h)"
    "lastn (filled s) (unrolled s) = lastn (filled s) h"
  shows "\<exists>s'. appends s xss = Inr s' \<and> wf_ring s' \<and> capacity s' = capacity s
           \<and> filled s' = min (capacity s) (length (h @ concat xss))
           \<and> lastn (filled s') (unrolled s') = lastn (filled s') (h @ concat xss)"
  using assms
proof (induction xss arbitrary: s h)
  case Nil
  then show ?case by simp
next
  case (Cons x xss)
  let ?C = "capacity s"
  from append_rb_unrolled[OF Cons.prems(1), of x] obtain s1 where
    s1: "append_rb s x = Inr s1" "wf_ring s1" "capacity s1 = ?C"
        "filled s1 = min ?C (filled s + length x)"
        "unrolled s1 = lastn ?C (unrolled s @ x)" by blast
  have f1: "filled s1 = min (capacity s1) (length (h @ x))"
    using s1 Cons.prems(2) by simp
  have "lastn (filled s1) (unrolled s1) = lastn (filled s1) (unrolled s @ x)"
    using s1 by (simp add: lastn_lastn)
  also have "\<dots> = lastn (filled s1) (h @ x)"
  proof (cases "filled s1 \<le> length x")
    case True
    then show ?thesis by (simp add: lastn_append_short)
  next
    case False
    then have le: "length x \<le> filled s1" by simp
    have "filled s1 - length x \<le> filled s" using s1 by simp
    then have "lastn (filled s1 - length x) (unrolled s) = lastn (filled s1 - length x) h"
      using Cons.prems(3) lastn_cong_le by blast
    then show ?thesis using le by (simp add: lastn_append_long)
  qed
  finally have inv1: "lastn (filled s1) (unrolled s1) = lastn (filled s1) (h @ x)" .
  from Cons.IH[OF s1(2) f1 inv1] s1 show ?case by simp
qed

lemma clear_wf:
  assumes "0 < capacity s" "length (buf s) = capacity s"
  shows "wf_ring (clear s)" "capacity (clear s) = capacity s" "filled (clear s) = 0"
  using assms by (simp_all add: clear_def wf_ring_def)

lemma appends_after_clear:
  assumes "0 < capacity s" "length (buf s) = capacity s"
  shows "\<exists>s'. appends (clear s) xss = Inr s' \<and> wf_ring s'
           \<and> filled s' = min (capacity s) (length (concat xss))
           \<and> lastn (filled s') (unrolled s') = lastn (filled s') (concat xss)"
proof -
  have "lastn (filled (clear s)) (unrolled (clear s)) = lastn (filled (clear s)) []"
    using clear_wf(3)[OF assms] by (simp add: lastn_def)
  moreover have "filled (clear s) = min (capacity (clear s)) (length ([] :: 'a list))"
    using clear_wf(3)[OF assms] by simp
  ultimately show ?thesis
    using appends_inv[OF clear_wf(1)[OF assms], of "[]" xss] clear_wf(2)[OF assms]
    by auto
qed

text \<open>
  Claim C1. After \<open>clear\<close> and any sequence of appends to a buffer of capacity at least
  one, every append has succeeded, \<open>filled\<close> is the smaller of the capacity and the
  number of samples appended, and \<open>get_last k\<close> returns, for every integer \<open>k\<close>, exactly
  the last \<open>min k filled\<close> appended samples in arrival order (none when that is not
  positive). In particular, when at most \<open>capacity\<close> samples were appended,
  \<open>get_last k\<close> is the last \<open>k\<close> appended samples for every \<open>k\<close> up to \<open>filled\<close>.
  The capacity is positive because the cursor lies in \<open>[0, capacity)\<close>.
\<close>

theorem get_last_most_recent:
  assumes "0 < capacity s" "length (buf s) = capacity s"
  shows "\<exists>s'. appends (clear s) xss = Inr s'
           \<and> filled s' = min (capacity s) (length (concat xss))
           \<and> (\<forall>k. get_last s' k = Inr (lastn (nat (min k (int (filled s')))) (concat xss)))
           \<and> (length (concat xss) \<le> capacity s \<longrightarrow>
                (\<forall>k. k \<le> filled s' \<longrightarrow> get_last s' (int k) = Inr (lastn k (concat xss))))"
proof -
  from appends_after_clear[OF assms, of xss] obtain s' where
    s': "appends (clear s) xss = Inr s'" "wf_ring s'"
        "filled s' = min (capacity s) (length (concat xss))"
        "lastn (filled s') (unrolled s') = lastn (filled s') (concat xss)" by blast
  have gl: "get_last s' k = Inr (lastn (nat (min k (int (filled s')))) (concat xss))" for k
  proof -
    have "nat (min k (int (filled s'))) \<le> filled s'" by simp
    then have "lastn (nat (min k (int (filled s')))) (unrolled s')
                 = lastn (nat (min k (int (filled s')))) (concat xss)"
      using s'(4) lastn_cong_le by blast
    then show ?thesis using get_last_unrolled[OF s'(2), of k] by simp
  qed
  have "get_last s' (int k) = Inr (lastn k (concat xss))" if "k \<le> filled s'" for k
  proof -
    have "nat (min (int k) (int (filled s'))) = k" using that by simp
    then show ?thesis using gl[of "int k"] by simp
  qed
  then show ?thesis using s'(1,3) gl by blast
qed

theorem get_last_most_recent_witness:
  "\<exists>s'. appends (clear \<lparr>capacity = 3, buf = [7, 7, 7 :: int], write_cur = 2, filled = 1\<rparr>) [[1, 2], [3, 4]] = Inr s'
     \<and> filled s' = 3
     \<and> get_last s' 2 = Inr [3, 4] \<and> get_last s' 3 = Inr [2, 3, 4] \<and> get_last s' 9 = Inr [2, 3, 4]
     \<and> get_last s' (- 1) = Inr []"
proof -
  let ?s = "\<lparr>capacity = 3, buf = [7, 7, 7 :: int], write_cur = 2, filled = 1\<rparr>"
  have h1: "0 < capacity ?s" and h2: "length (buf ?s) = capacity ?s" by simp_all
  from get_last_most_recent[OF h1 h2, of "[[1, 2], [3, 4]]"] obtain s' where
    s': "appends (clear ?s) [[1, 2], [3, 4]] = Inr s'"
        "filled s' = min (capacity ?s) (length (concat [[1, 2], [3, 4 :: int]]))"
        "\<forall>k. get_last s' k = Inr (lastn (nat (min k (int (filled s')))) (concat [[1, 2], [3, 4]]))"
    by blast
  have f: "filled s' = 3" using s'(2) by simp
  have "get_last s' 2 = Inr [3, 4]" "get_last s' 3 = Inr [2, 3, 4]" "get_last s' 9 = Inr [2, 3, 4]"
       "get_last s' (- 1) = Inr []"
    using s'(3) f by (simp_all add: lastn_def)
  then show ?thesis using s'(1) f by blast
qed

text \<open>
  Claim C2. Appending a batch at least as long as the capacity to a buffer in any state
  of the data model succeeds and leaves exactly the last \<open>capacity\<close> elements of the
  batch in the storage, the cursor at 0 and \<open>filled\<close> at the capacity;
  \<open>get_last capacity\<close> then returns those elements, whatever the buffer held before.
\<close>

theorem append_overflow:
  assumes "wf_ring s" "capacity s \<le> length x"
  shows "\<exists>s'. append_rb s x = Inr s' \<and> buf s' = lastn (capacity s) x \<and> write_cur s' = 0
           \<and> filled s' = capacity s \<and> capacity s' = capacity s
           \<and> get_last s' (int (capacity s)) = Inr (lastn (capacity s) x)"
proof -
  let ?C = "capacity s"
  from assms have len: "length (buf s) = ?C" and w: "write_cur s < ?C"
    by (simp_all add: wf_ring_def)
  let ?s' = "s\<lparr>buf := lastn ?C x, write_cur := 0, filled := ?C\<rparr>"
  have ne: "length x \<noteq> 0" using assms(2) w by auto
  have "neg_slice_from x ?C = lastn ?C x"
    using w by (simp add: neg_slice_from_def lastn_def)
  moreover have "length (lastn ?C x) = length (buf s)"
    using assms(2) len by (simp add: lastn_def)
  ultimately have "assign_slice (buf s) 0 (length (buf s)) (neg_slice_from x ?C) = Inr (lastn ?C x)"
    by (simp add: assign_slice_def)
  then have res: "append_rb s x = Inr ?s'"
    using ne assms(2) by (simp add: append_rb_def)
  have wf': "wf_ring ?s'" using assms(2) w by (simp add: wf_ring_def lastn_def)
  have "get_last ?s' (int ?C) = Inr (lastn ?C (unrolled ?s'))"
    using get_last_unrolled[OF wf', of "int ?C"] by simp
  also have "unrolled ?s' = lastn ?C x" by (simp add: unrolled_def)
  also have "lastn ?C (lastn ?C x) = lastn ?C x" by (simp add: lastn_lastn)
  finally show ?thesis using res by simp
qed

theorem append_overflow_witness:
  "wf_ring \<lparr>capacity = 3, buf = [7, 8, 9 :: int], write_cur = 1, filled = 2\<rparr>
     \<and> (\<exists>s'. append_rb \<lparr>capacity = 3, buf = [7, 8, 9 :: int], write_cur = 1, filled = 2\<rparr> [1, 2, 3, 4, 5] = Inr s'
           \<and> buf s' = [3, 4, 5] \<and> write_cur s' = 0 \<and> filled s' = 3
           \<and> get_last s' 3 = Inr [3, 4, 5])"
proof -
  let ?s = "\<lparr>capacity = 3, buf = [7, 8, 9 :: int], write_cur = 1, filled = 2\<rparr>"
  have h1: "wf_ring ?s" by (simp add: wf_ring_def)
  have h2: "capacity ?s \<le> length [1, 2, 3, 4, 5 :: int]" by simp
  from append_overflow[OF h1 h2] obtain s' where
    "append_rb ?s [1, 2, 3, 4, 5] = Inr s'" "buf s' = [3, 4, 5]" "write_cur s' = 0"
    "filled s' = 3" "get_last s' 3 = Inr [3, 4, 5]"
    by (auto simp add: lastn_def)
  then show ?thesis using h1 by blast
qed

text \<open>
  A buffer of capacity zero is outside the data model (no cursor lies in \<open>[0, 0)\<close>):
  there \<open>x[-0:]\<close> is the whole batch, and storing two or more samples raises.
\<close>

lemma append_capacity_zero:
  "append_rb \<lparr>capacity = 0, buf = [], write_cur = 0, filled = 0\<rparr> [1, 2 :: int] = Inl ValueError"
  by (simp add: append_rb_def assign_slice_def neg_slice_from_def)

section \<open>Signal engine: snapshots and control operations\<close>

lemma fill_defaults_lookup:
  "fill_defaults ss ps k =
     (case ps k of Some v \<Rightarrow> Some v | None \<Rightarrow> map_option default (find (\<lambda>s. key s = k) ss))"
  by (induction ss arbitrary: ps) (auto split: option.splits)

lemma fill_defaults_present:
  "list_all (\<lambda>s. ps (key s) \<noteq> None) ss \<Longrightarrow> fill_defaults ss ps = ps"
  by (induction ss arbitrary: ps) auto

lemma set_defaults_dom:
  "set_defaults ss ps k \<noteq> None \<longleftrightarrow> ps k \<noteq> None \<or> k \<in> key ` set ss"
  by (induction ss arbitrary: ps) auto

lemma fill_defaults_keys:
  "list_all (\<lambda>s. fill_defaults ss ps (key s) \<noteq> None) ss"
  unfolding list_all_iff
proof
  fix s assume "s \<in> set ss"
  then have "find (\<lambda>t. key t = key s) ss \<noteq> None"
    by (auto simp add: find_None_iff)
  then show "fill_defaults ss ps (key s) \<noteq> None"
    by (auto simp add: fill_defaults_lookup split: option.splits)
qed

lemma set_defaults_keys:
  "list_all (\<lambda>s. set_defaults ss ps (key s) \<noteq> None) ss"
  unfolding list_all_iff using set_defaults_dom[of ss ps] by blast

lemma lookup_type_TYPE: "lookup_type (Some (PStr (comp_TYPE kd))) = Some kd"
  by (cases kd) (simp_all add: lookup_type_def BUILTIN_COMPONENTS_def)

lemma BUILTIN_COMPONENTS_TYPE: "BUILTIN_COMPONENTS s = Some kd \<Longrightarrow> comp_TYPE kd = s"
  by (auto simp add: BUILTIN_COMPONENTS_def split: if_splits)

lemma rebuild_map_filter:
  "rebuild acc snap =
     acc @ List.map_filter (\<lambda>c. map_option (\<lambda>kd. build_component kd c) (lookup_type (e_type c))) snap"
  by (induction snap arbitrary: acc) (auto simp add: List.map_filter_simps split: option.splits)

lemma build_snapshot:
  "wf_component c \<Longrightarrow>
     build_component (kind c) (snapshot_of c) = new_component (kind c) (enabled c) (params c)"
  by (simp add: build_component_def snapshot_of_def wf_component_def fill_defaults_present)

lemma snapshot_new: "snapshot_of (new_component (kind c) (enabled c) (params c)) = snapshot_of c"
  by (simp add: snapshot_of_def new_component_def)

lemma rebuild_snapshot:
  "list_all wf_component cs \<Longrightarrow>
     rebuild [] (map snapshot_of cs) = map (\<lambda>c. new_component (kind c) (enabled c) (params c)) cs"
proof (induction cs)
  case Nil
  then show ?case by simp
next
  case (Cons c cs)
  have "lookup_type (e_type (snapshot_of c)) = Some (kind c)"
    by (simp add: snapshot_of_def lookup_type_TYPE)
  then show ?case using Cons
    by (simp add: rebuild_map_filter List.map_filter_simps build_snapshot)
qed

text \<open>
  Claim C5. For every engine state whose components hold their schema's keys (every
  state the engine's operations build), \<open>replace_components\<close> applied to
  \<open>snapshot_components\<close> yields an engine whose snapshot is the same: the same kinds in
  the same order, the same enabled flags and the same parameter dictionaries. For any
  snapshot, the rebuilt list holds one component per entry of a known kind, in order
  (entries of unknown kind are skipped), and a rebuilt component's parameters are the
  entry's, with each missing key of the schema taken from the schema's default.
\<close>

theorem snapshot_replace_roundtrip:
  assumes "wf_engine e"
  shows "snapshot_components (replace_components e (snapshot_components e)) = snapshot_components e
       \<and> map kind (components (replace_components e (snapshot_components e))) = map kind (components e)
       \<and> map enabled (components (replace_components e (snapshot_components e))) = map enabled (components e)
       \<and> map params (components (replace_components e (snapshot_components e))) = map params (components e)
       \<and> components (replace_components e snap) =
           List.map_filter (\<lambda>c. map_option (\<lambda>kd. build_component kd c) (lookup_type (e_type c))) snap
       \<and> params (build_component kd c) k =
           (case (case e_params c of None \<Rightarrow> Map.empty | Some d \<Rightarrow> d) k of
              Some v \<Rightarrow> Some v
            | None \<Rightarrow> map_option default (find (\<lambda>s. key s = k) (schema kd)))"
proof -
  let ?cs = "components e"
  have rb: "components (replace_components e (snapshot_components e))
              = map (\<lambda>c. new_component (kind c) (enabled c) (params c)) ?cs"
    using assms by (simp add: replace_components_def snapshot_components_def wf_engine_def rebuild_snapshot)
  have 1: "snapshot_components (replace_components e (snapshot_components e)) = snapshot_components e"
    unfolding snapshot_components_def[of "replace_components e (snapshot_components e)"] rb
    by (simp add: snapshot_components_def snapshot_new)
  have 2: "map kind (components (replace_components e (snapshot_components e))) = map kind ?cs"
    "map enabled (components (replace_components e (snapshot_components e))) = map enabled ?cs"
    "map params (components (replace_components e (snapshot_components e))) = map params ?cs"
    unfolding rb by (simp_all add: new_component_def)
  have 3: "components (replace_components e snap) =
           List.map_filter (\<lambda>c. map_option (\<lambda>kd. build_component kd c) (lookup_type (e_type c))) snap"
    by (simp add: replace_components_def rebuild_map_filter)
  have 4: "params (build_component kd c) k =
           (case (case e_params c of None \<Rightarrow> Map.empty | Some d \<Rightarrow> d) k of
              Some v \<Rightarrow> Some v
            | None \<Rightarrow> map_option default (find (\<lambda>s. key s = k) (schema kd)))"
    by (simp add: build_component_def new_component_def fill_defaults_lookup Let_def)
  show ?thesis using 1 2 3 4 by blast
qed


lemma map_add_keeps: "m k \<noteq> None \<Longrightarrow> (m ++ n) k \<noteq> None"
  by (simp add: map_add_def split: option.splits)

lemma wf_new_filled: "wf_component (new_component kd en (fill_defaults (schema kd) ps))"
  using fill_defaults_keys[of "schema kd" ps] by (simp add: wf_component_def new_component_def)

lemma wf_build: "wf_component (build_component kd c)"
  by (simp add: build_component_def Let_def wf_new_filled)

lemma wf_update_params:
  assumes "wf_component c"
  shows "wf_component (update_params c new)"
proof -
  have up: "params (update_params c new) = params c ++ new" "kind (update_params c new) = kind c"
    by (simp_all add: update_params_def)
  have "list_all (\<lambda>s. (params c ++ new) (key s) \<noteq> None) (schema (kind c))"
    unfolding list_all_iff
  proof
    fix s assume "s \<in> set (schema (kind c))"
    then have "params c (key s) \<noteq> None"
      using assms unfolding wf_component_def list_all_iff by blast
    then show "(params c ++ new) (key s) \<noteq> None" by (rule map_add_keeps)
  qed
  then show ?thesis unfolding wf_component_def up .
qed

lemma wf_init: "wf_engine (SignalEngine_init k)"
  by (simp add: wf_engine_def SignalEngine_init_def)

lemma wf_add_component:
  assumes "wf_engine e" "add_component e t ps en = Inr (e', i)"
  shows "wf_engine e'"
proof -
  from assms(2) obtain kd where kd: "BUILTIN_COMPONENTS t = Some kd"
    by (auto simp add: add_component_def split: option.splits)
  define ps0 where "ps0 = set_defaults (schema kd) Map.empty"
  define ps' where "ps' = (case ps of None \<Rightarrow> ps0 | Some new \<Rightarrow> ps0 ++ new)"
  have "list_all (\<lambda>s. ps' (key s) \<noteq> None) (schema kd)"
    unfolding list_all_iff
  proof
    fix s assume "s \<in> set (schema kd)"
    then have p0: "ps0 (key s) \<noteq> None"
      using set_defaults_keys[of "schema kd" Map.empty] unfolding list_all_iff ps0_def by blast
    show "ps' (key s) \<noteq> None"
    proof (cases ps)
      case None
      then show ?thesis using p0 by (simp add: ps'_def)
    next
      case (Some new)
      then show ?thesis using map_add_keeps[of ps0 "key s" new] p0 by (simp add: ps'_def)
    qed
  qed
  then have "wf_component (new_component kd en ps')"
    unfolding wf_component_def new_component_def by simp
  moreover have "e' = e\<lparr>components := components e @ [new_component kd en ps']\<rparr>"
    using assms(2) kd unfolding ps'_def ps0_def by (auto simp add: add_component_def Let_def)
  ultimately show ?thesis using assms(1) by (simp add: wf_engine_def)
qed

lemma wf_remove_component: "wf_engine e \<Longrightarrow> wf_engine (remove_component e idx)"
  by (auto simp add: wf_engine_def remove_component_def list_all_iff
      dest: in_set_takeD in_set_dropD)

lemma wf_set_component_enabled: "wf_engine e \<Longrightarrow> wf_engine (set_component_enabled e idx en)"
proof -
  assume wf: "wf_engine e"
  have "wf_component (c\<lparr>enabled := en\<rparr>)" if "wf_component c" for c
    using that by (simp add: wf_component_def)
  then show ?thesis using wf
    by (auto simp add: wf_engine_def set_component_enabled_def list_all_length nth_list_update)
qed

lemma wf_update_component_params: "wf_engine e \<Longrightarrow> wf_engine (update_component_params e idx new)"
  by (auto simp add: wf_engine_def update_component_params_def list_all_length nth_list_update
      wf_update_params)

lemma wf_replace_components: "wf_engine (replace_components e snap)"
  by (auto simp add: wf_engine_def replace_components_def rebuild_map_filter list_all_iff
      List.map_filter_def wf_build)


lemma kind_build: "kind (build_component kd c) = kd"
  by (simp add: build_component_def new_component_def Let_def)

theorem snapshot_replace_roundtrip_witness:
  "wf_engine
     \<lparr>clock = \<lparr>samples = 0\<rparr>,
      components =
        [\<lparr>kind = Noise, enabled = False,
          params = [''mean'' \<mapsto> PFloat 0, ''sigma'' \<mapsto> PFloat 1, ''seed'' \<mapsto> PInt 7],
          cur = Map.empty, target = Map.empty\<rparr>],
      fs = 2000, chunk_size = 256, amplitude_clip = 0, paused = True\<rparr>
   \<and> map enabled (components (replace_components
     \<lparr>clock = \<lparr>samples = 0\<rparr>,
      components =
        [\<lparr>kind = Noise, enabled = False,
          params = [''mean'' \<mapsto> PFloat 0, ''sigma'' \<mapsto> PFloat 1, ''seed'' \<mapsto> PInt 7],
          cur = Map.empty, target = Map.empty\<rparr>],
      fs = 2000, chunk_size = 256, amplitude_clip = 0, paused = True\<rparr>
     (snapshot_components
     \<lparr>clock = \<lparr>samples = 0\<rparr>,
      components =
        [\<lparr>kind = Noise, enabled = False,
          params = [''mean'' \<mapsto> PFloat 0, ''sigma'' \<mapsto> PFloat 1, ''seed'' \<mapsto> PInt 7],
          cur = Map.empty, target = Map.empty\<rparr>],
      fs = 2000, chunk_size = 256, amplitude_clip = 0, paused = True\<rparr>))) = [False]
   \<and> map kind (components (replace_components
     \<lparr>clock = \<lparr>samples = 0\<rparr>,
      components =
        [\<lparr>kind = Noise, enabled = False,
          params = [''mean'' \<mapsto> PFloat 0, ''sigma'' \<mapsto> PFloat 1, ''seed'' \<mapsto> PInt 7],
          cur = Map.empty, target = Map.empty\<rparr>],
      fs = 2000, chunk_size = 256, amplitude_clip = 0, paused = True\<rparr>
         [\<lparr>e_type = Some (PStr ''wobble''), e_name = None, e_enabled = None, e_params = None\<rparr>,
          \<lparr>e_type = Some (PStr ''sine''), e_name = None, e_enabled = None,
           e_params = Some [''frequency'' \<mapsto> PFloat 30]\<rparr>])) = [Sine]
   \<and> params (build_component Sine
          \<lparr>e_type = Some (PStr ''sine''), e_name = None, e_enabled = None,
           e_params = Some [''frequency'' \<mapsto> PFloat 30]\<rparr>) ''smooth_ms'' = Some (PInt 150)"
proof -
  let ?e = "\<lparr>clock = \<lparr>samples = 0\<rparr>,
      components =
        [\<lparr>kind = Noise, enabled = False,
          params = [''mean'' \<mapsto> PFloat 0, ''sigma'' \<mapsto> PFloat 1, ''seed'' \<mapsto> PInt 7],
          cur = Map.empty, target = Map.empty\<rparr>],
      fs = 2000, chunk_size = 256, amplitude_clip = 0, paused = True\<rparr>"
  let ?bad = "\<lparr>e_type = Some (PStr ''wobble''), e_name = None, e_enabled = None, e_params = None\<rparr>"
  let ?en = "\<lparr>e_type = Some (PStr ''sine''), e_name = None, e_enabled = None,
           e_params = Some [''frequency'' \<mapsto> PFloat 30]\<rparr>"
  have wf: "wf_engine ?e"
    by (simp add: wf_engine_def wf_component_def spec_def)
  have lk: "lookup_type (e_type ?bad) = None" "lookup_type (e_type ?en) = Some Sine"
    by (simp_all add: lookup_type_def BUILTIN_COMPONENTS_def)
  note rt = snapshot_replace_roundtrip[OF wf, of "[?bad, ?en]" Sine ?en "''smooth_ms''"]
  have a: "map enabled (components (replace_components ?e (snapshot_components ?e))) = [False]"
  proof -
    have "map enabled (components (replace_components ?e (snapshot_components ?e)))
            = map enabled (components ?e)" using rt by (rule conjunct1[OF conjunct2[OF conjunct2]])
    then show ?thesis by simp
  qed
  have b: "map kind (components (replace_components ?e [?bad, ?en])) = [Sine]"
  proof -
    have "components (replace_components ?e [?bad, ?en]) =
           List.map_filter (\<lambda>c. map_option (\<lambda>kd. build_component kd c) (lookup_type (e_type c))) [?bad, ?en]"
      using rt by (rule conjunct1[OF conjunct2[OF conjunct2[OF conjunct2[OF conjunct2]]]])
    also have "\<dots> = [build_component Sine ?en]"
      unfolding List.map_filter_simps lk by simp
    finally show ?thesis by (simp only: list.map kind_build)
  qed
  have c: "params (build_component Sine ?en) ''smooth_ms'' = Some (PInt 150)"
  proof -
    have "params (build_component Sine ?en) ''smooth_ms'' =
           (case (case e_params ?en of None \<Rightarrow> Map.empty | Some d \<Rightarrow> d) ''smooth_ms'' of
              Some v \<Rightarrow> Some v
            | None \<Rightarrow> map_option default (find (\<lambda>s. key s = ''smooth_ms'') (schema Sine)))"
      using rt by (rule conjunct2[OF conjunct2[OF conjunct2[OF conjunct2[OF conjunct2]]]])
    then show ?thesis by (simp add: spec_def)
  qed
  show ?thesis by (rule conjI[OF wf conjI[OF a conjI[OF b c]]])
qed

text \<open>
  Claim C10. For every engine state and every index below zero or at least the number of
  components, \<open>remove_component\<close>, \<open>set_component_enabled\<close> and
  \<open>update_component_params\<close> return the engine as it was: the component list and every
  component are unchanged, and nothing is raised.
\<close>

theorem out_of_range_noop:
  assumes "idx < 0 \<or> int (length (components e)) \<le> idx"
  shows "remove_component e idx = e \<and> set_component_enabled e idx b = e
           \<and> update_component_params e idx p = e"
  using assms
  by (auto simp add: remove_component_def set_component_enabled_def update_component_params_def)

theorem out_of_range_noop_witness:
  "remove_component (replace_components (SignalEngine_init \<lparr>samples = 0\<rparr>)
       [\<lparr>e_type = Some (PStr ''noise''), e_name = None, e_enabled = None, e_params = None\<rparr>]) (- 1)
     = replace_components (SignalEngine_init \<lparr>samples = 0\<rparr>)
       [\<lparr>e_type = Some (PStr ''noise''), e_name = None, e_enabled = None, e_params = None\<rparr>]
   \<and> set_component_enabled (replace_components (SignalEngine_init \<lparr>samples = 0\<rparr>)
       [\<lparr>e_type = Some (PStr ''noise''), e_name = None, e_enabled = None, e_params = None\<rparr>]) 1 False
     = replace_components (SignalEngine_init \<lparr>samples = 0\<rparr>)
       [\<lparr>e_type = Some (PStr ''noise''), e_name = None, e_enabled = None, e_params = None\<rparr>]
   \<and> update_component_params (replace_components (SignalEngine_init \<lparr>samples = 0\<rparr>)
       [\<lparr>e_type = Some (PStr ''noise''), e_name = None, e_enabled = None, e_params = None\<rparr>]) 1
       [''sigma'' \<mapsto> PFloat 3]
     = replace_components (SignalEngine_init \<lparr>samples = 0\<rparr>)
       [\<lparr>e_type = Some (PStr ''noise''), e_name = None, e_enabled = None, e_params = None\<rparr>]"
proof -
  let ?e = "replace_components (SignalEngine_init \<lparr>samples = 0\<rparr>)
       [\<lparr>e_type = Some (PStr ''noise''), e_name = None, e_enabled = None, e_params = None\<rparr>]"
  have len: "length (components ?e) = 1"
    by (simp add: replace_components_def lookup_type_def BUILTIN_COMPONENTS_def)
  have h1: "(- 1 :: int) < 0 \<or> int (length (components ?e)) \<le> - 1" by simp
  have h2: "(1 :: int) < 0 \<or> int (length (components ?e)) \<le> 1" using len by simp
  show ?thesis
    using out_of_range_noop[OF h1, of False Map.empty]
      out_of_range_noop[OF h2, of False "[''sigma'' \<mapsto> PFloat 3]"]
    by blast
qed

section \<open>Signal engine: chunk generation\<close>

text \<open>
  Claim C3 as stated fails at a sample rate of zero: the start time is computed before
  the pause is looked at, and the division raises. The engine below is the freshly built
  one (paused) after \<open>set_global(fs=0)\<close>.
\<close>

theorem paused_zero_rate_raises:
  "is_paused (set_global (SignalEngine_init \<lparr>samples = 0\<rparr>) (Some 0) None None)
   \<and> fst (generate_chunk SineComponent_generate
             (set_global (SignalEngine_init \<lparr>samples = 0\<rparr>) (Some 0) None None))
       = Inl ZeroDivisionError"
  by (simp add: is_paused_def set_global_def SignalEngine_init_def generate_chunk_def)

text \<open>
  Claim C3, amended. For every paused engine state with a nonzero sample rate,
  \<open>generate_chunk\<close> returns an empty sample sequence, with the start time
  \<open>sample_index / fs\<close>, and leaves the engine, and so the clock's sample index, unchanged.
\<close>

theorem paused_chunk_empty:
  assumes "is_paused e" "fs e \<noteq> 0"
  shows "generate_chunk gen e = (Inr ([], real_of_int (sample_index (clock e)) / fs e), e)
           \<and> sample_index (clock (snd (generate_chunk gen e))) = sample_index (clock e)"
  using assms by (simp add: generate_chunk_def is_paused_def Let_def)

theorem paused_chunk_empty_witness:
  "is_paused (SignalEngine_init \<lparr>samples = 512\<rparr>)
   \<and> fs (SignalEngine_init \<lparr>samples = 512\<rparr>) \<noteq> 0
   \<and> generate_chunk SineComponent_generate (SignalEngine_init \<lparr>samples = 512\<rparr>)
       = (Inr ([], 512 / 2000), SignalEngine_init \<lparr>samples = 512\<rparr>)"
proof -
  let ?e = "SignalEngine_init \<lparr>samples = 512\<rparr>"
  have h1: "is_paused ?e" by (simp add: is_paused_def SignalEngine_init_def)
  have h2: "fs ?e \<noteq> 0" by (simp add: SignalEngine_init_def)
  have "real_of_int (sample_index (clock ?e)) / fs ?e = 512 / 2000"
    by (simp add: SignalEngine_init_def sample_index_def)
  then show ?thesis
    using paused_chunk_empty[OF h1 h2, of SineComponent_generate] h1 h2 by simp
qed

lemma np_clip_bounds: "0 < c \<Longrightarrow> - c \<le> np_clip (- c) c v \<and> np_clip (- c) c v \<le> c"
  by (simp add: np_clip_def min_def max_def)

lemma mix_length:
  "mix gen cs t0 n f x = (Inr x', cs') \<Longrightarrow> length x' = length x \<and> length cs' = length cs"
proof (induction cs arbitrary: x x' cs')
  case Nil
  then show ?case by simp
next
  case (Cons c cs)
  obtain r c1 where g: "gen c t0 n f = (r, c1)" by (cases "gen c t0 n f")
  with Cons.prems obtain y where r: "r = Inr y" by (cases r) auto
  with Cons.prems g obtain x1 where x1: "iadd x y = Inr x1" by (cases "iadd x y") auto
  obtain r2 cs2 where m: "mix gen cs t0 n f x1 = (r2, cs2)" by (cases "mix gen cs t0 n f x1")
  with Cons.prems g r x1 have "r2 = Inr x'" "cs' = c1 # cs2" by auto
  with Cons.IH[of x1 x' cs2] m have "length x' = length x1" "length cs2 = length cs" by auto
  moreover have "length x1 = length x"
    using x1 by (auto simp add: iadd_def split: if_splits)
  ultimately show ?case using \<open>cs' = c1 # cs2\<close> by simp
qed

lemma mix_returns:
  assumes "\<forall>c \<in> set cs. \<exists>y c'. gen c t0 n f = (Inr y, c') \<and> length y = length x"
  shows "\<exists>x' cs'. mix gen cs t0 n f x = (Inr x', cs')"
  using assms
proof (induction cs arbitrary: x)
  case Nil
  then show ?case by simp
next
  case (Cons c cs)
  then obtain y c1 where g: "gen c t0 n f = (Inr y, c1)" "length y = length x" by auto
  then have ia: "iadd x y = Inr (map2 (+) x y)" by (simp add: iadd_def)
  have "length (map2 (+) x y) = length x" using g by simp
  with Cons.prems have "\<forall>c \<in> set cs. \<exists>y' c'. gen c t0 n f = (Inr y', c') \<and> length y' = length (map2 (+) x y)"
    by simp
  from Cons.IH[OF this] obtain x' cs' where "mix gen cs t0 n f (map2 (+) x y) = (Inr x', cs')" by blast
  then show ?case using g ia by simp
qed

lemma generate_chunk_returns:
  assumes "fs e \<noteq> 0" "\<not> paused e" "0 \<le> chunk_size e"
    and "\<forall>c \<in> set (components e). \<exists>y c'.
           gen c (real_of_int (sample_index (clock e)) / fs e) (min (chunk_size e) MAX_CHUNK) (fs e) = (Inr y, c')
           \<and> length y = nat (min (chunk_size e) MAX_CHUNK)"
  shows "\<exists>xs e'. generate_chunk gen e = (Inr (xs, real_of_int (sample_index (clock e)) / fs e), e')
           \<and> length xs = nat (min (chunk_size e) MAX_CHUNK)
           \<and> sample_index (clock e') = sample_index (clock e) + min (chunk_size e) MAX_CHUNK"
proof -
  let ?n = "min (chunk_size e) MAX_CHUNK" and ?t0 = "real_of_int (sample_index (clock e)) / fs e"
  let ?x0 = "replicate (view_len ?n) (0 :: real)"
  have n0: "0 \<le> ?n" using assms(3) by (simp add: MAX_CHUNK_def)
  then have lx: "length ?x0 = nat ?n" by (simp add: view_len_def)
  with assms(4) have "\<forall>c \<in> set (components e). \<exists>y c'. gen c ?t0 ?n (fs e) = (Inr y, c') \<and> length y = length ?x0"
    by simp
  from mix_returns[of "components e" gen ?t0 ?n "fs e" ?x0, OF this] obtain x cs' where m: "mix gen (components e) ?t0 ?n (fs e) ?x0 = (Inr x, cs')"
    by blast
  from mix_length[OF m] lx have "length x = nat ?n" by simp
  then show ?thesis using assms(1,2) m
    by (simp add: generate_chunk_def Let_def advance_def sample_index_def)
qed

text \<open>
  Claim C4. Whatever the components generate, when \<open>generate_chunk\<close> returns a chunk and
  the amplitude clip is positive, every sample of the chunk lies between \<open>- clip\<close> and
  \<open>clip\<close>; when the clip is zero the chunk returned by a running engine is the sum of
  the components as mixed, unclipped. Samples and the clip are real numbers here.
  \<open>generate_chunk_returns\<close> above shows that a chunk is returned whenever the engine
  runs at a nonzero rate with a non-negative chunk size and every component yields as many
  samples as asked.
\<close>

theorem chunk_clipped:
  assumes "generate_chunk gen e = (Inr (xs, t0), e')"
  shows "(0 < amplitude_clip e \<longrightarrow> (\<forall>v \<in> set xs. - amplitude_clip e \<le> v \<and> v \<le> amplitude_clip e))
       \<and> (amplitude_clip e = 0 \<longrightarrow> \<not> paused e \<longrightarrow>
            fst (mix gen (components e) t0 (min (chunk_size e) MAX_CHUNK) (fs e)
                   (replicate (view_len (min (chunk_size e) MAX_CHUNK)) 0)) = Inr xs)"
proof (cases "paused e \<or> fs e = 0")
  case True
  then show ?thesis using assms
    by (auto simp add: generate_chunk_def Let_def split: if_splits)
next
  case False
  let ?n = "min (chunk_size e) MAX_CHUNK" and ?t0 = "real_of_int (sample_index (clock e)) / fs e"
  let ?x0 = "replicate (view_len ?n) (0 :: real)"
  obtain r cs' where m: "mix gen (components e) ?t0 ?n (fs e) ?x0 = (r, cs')"
    by (cases "mix gen (components e) ?t0 ?n (fs e) ?x0")
  with assms False obtain x where r: "r = Inr x"
    by (cases r) (auto simp add: generate_chunk_def Let_def)
  have t0: "t0 = ?t0" and xs: "xs = (if amplitude_clip e \<noteq> 0 \<and> amplitude_clip e > 0
                              then map (np_clip (- amplitude_clip e) (amplitude_clip e)) x else x)"
    using assms False m r by (auto simp add: generate_chunk_def Let_def)
  have a: "0 < amplitude_clip e \<longrightarrow> (\<forall>v \<in> set xs. - amplitude_clip e \<le> v \<and> v \<le> amplitude_clip e)"
    using xs np_clip_bounds by auto
  have b: "amplitude_clip e = 0 \<longrightarrow> fst (mix gen (components e) t0 ?n (fs e) ?x0) = Inr xs"
    using xs m r t0 by simp
  show ?thesis using a b by blast
qed

theorem chunk_clipped_witness:
  "generate_chunk (\<lambda>c t0 n f. (Inr (replicate (nat n) 2), c))
     \<lparr>clock = \<lparr>samples = 0\<rparr>, components = [new_component Noise True Map.empty],
      fs = 2000, chunk_size = 3, amplitude_clip = 1 / 2, paused = False\<rparr>
   = (Inr ([1 / 2, 1 / 2, 1 / 2], 0),
      \<lparr>clock = \<lparr>samples = 3\<rparr>, components = [new_component Noise True Map.empty],
       fs = 2000, chunk_size = 3, amplitude_clip = 1 / 2, paused = False\<rparr>)
   \<and> list_all (\<lambda>v. - (1 / 2) \<le> v \<and> v \<le> 1 / 2) [1 / 2, 1 / 2, 1 / 2 :: real]
   \<and> generate_chunk (\<lambda>c t0 n f. (Inr (replicate (nat n) 2), c))
     \<lparr>clock = \<lparr>samples = 0\<rparr>, components = [new_component Noise True Map.empty],
      fs = 2000, chunk_size = 3, amplitude_clip = 0, paused = False\<rparr>
   = (Inr ([2, 2, 2], 0),
      \<lparr>clock = \<lparr>samples = 3\<rparr>, components = [new_component Noise True Map.empty],
       fs = 2000, chunk_size = 3, amplitude_clip = 0, paused = False\<rparr>)"
proof -
  let ?g = "\<lambda>(c :: component) (t0 :: real) (n :: int) (f :: real). (Inr (replicate (nat n) (2 :: real)) :: py_error + real list, c)"
  let ?e = "\<lambda>clip. \<lparr>clock = \<lparr>samples = 0\<rparr>, components = [new_component Noise True Map.empty],
      fs = 2000, chunk_size = 3, amplitude_clip = clip, paused = False\<rparr>"
  let ?e' = "\<lambda>clip. \<lparr>clock = \<lparr>samples = 3\<rparr>, components = [new_component Noise True Map.empty],
      fs = 2000, chunk_size = 3, amplitude_clip = clip, paused = False\<rparr>"
  have n3: "nat 3 = Suc (Suc (Suc 0))" "(3 :: nat) = Suc (Suc (Suc 0))" by simp_all
  have g1: "generate_chunk ?g (?e (1 / 2)) = (Inr ([1 / 2, 1 / 2, 1 / 2], 0), ?e' (1 / 2))"
    by (simp add: generate_chunk_def Let_def MAX_CHUNK_def view_len_def iadd_def np_clip_def
        sample_index_def advance_def n3)
  have g0: "generate_chunk ?g (?e 0) = (Inr ([2, 2, 2], 0), ?e' 0)"
    by (simp add: generate_chunk_def Let_def MAX_CHUNK_def view_len_def iadd_def
        sample_index_def advance_def n3)
  from chunk_clipped[OF g1] have "\<forall>v \<in> set [1 / 2, 1 / 2, 1 / 2 :: real]. - (1 / 2) \<le> v \<and> v \<le> 1 / 2"
    by simp
  then have la: "list_all (\<lambda>v. - (1 / 2) \<le> v \<and> v \<le> 1 / 2) [1 / 2, 1 / 2, 1 / 2 :: real]"
    by (simp add: list_all_iff)
  show ?thesis by (rule conjI[OF g1 conjI[OF la g0]])
qed

section \<open>Sine component: parameter smoothing\<close>

lemma smooth_step:
  assumes "cur_val c k = Inr cv" "target_val c k cv = Inr tv"
  shows "smooth c k alpha = Inr (c\<lparr>cur := (cur c)(k \<mapsto> PFloat (cv + alpha * (tv - cv)))\<rparr>)"
  using assms by (simp add: smooth_def cur_val_def target_val_def)

lemma cur_val_other:
  "k' \<noteq> k \<Longrightarrow> cur_val (c\<lparr>cur := (cur c)(k' \<mapsto> v)\<rparr>) k = cur_val c k"
  by (simp add: cur_val_def dict_get_def)

lemma target_val_cur_update:
  "target_val (c\<lparr>cur := m\<rparr>) k cv = target_val c k cv"
  by (simp add: target_val_def)

lemma smooth_all_four:
  assumes "\<forall>k \<in> set smoothed_keys. cur_val c k = Inr (cv k) \<and> target_val c k (cv k) = Inr (tv k)"
  shows "\<exists>c'. smooth_all c smoothed_keys alpha = (Inr (), c')
           \<and> (\<forall>k \<in> set smoothed_keys. cur c' k = Some (PFloat (cv k + alpha * (tv k - cv k))))
           \<and> target c' = target c \<and> params c' = params c \<and> enabled c' = enabled c \<and> kind c' = kind c"
proof -
  let ?u = "\<lambda>k. PFloat (cv k + alpha * (tv k - cv k))"
  let ?c1 = "c\<lparr>cur := (cur c)(''amplitude'' \<mapsto> ?u ''amplitude'')\<rparr>"
  let ?c2 = "?c1\<lparr>cur := (cur ?c1)(''frequency'' \<mapsto> ?u ''frequency'')\<rparr>"
  let ?c3 = "?c2\<lparr>cur := (cur ?c2)(''phase'' \<mapsto> ?u ''phase'')\<rparr>"
  let ?c4 = "?c3\<lparr>cur := (cur ?c3)(''dc'' \<mapsto> ?u ''dc'')\<rparr>"
  from assms have h:
    "cur_val c ''amplitude'' = Inr (cv ''amplitude'')" "target_val c ''amplitude'' (cv ''amplitude'') = Inr (tv ''amplitude'')"
    "cur_val c ''frequency'' = Inr (cv ''frequency'')" "target_val c ''frequency'' (cv ''frequency'') = Inr (tv ''frequency'')"
    "cur_val c ''phase'' = Inr (cv ''phase'')" "target_val c ''phase'' (cv ''phase'') = Inr (tv ''phase'')"
    "cur_val c ''dc'' = Inr (cv ''dc'')" "target_val c ''dc'' (cv ''dc'') = Inr (tv ''dc'')"
    by (simp_all add: smoothed_keys_def)
  have s1: "smooth c ''amplitude'' alpha = Inr ?c1"
    using h by (simp add: smooth_def cur_val_def target_val_def)
  have s2: "smooth ?c1 ''frequency'' alpha = Inr ?c2"
    using h by (simp add: smooth_def cur_val_def target_val_def dict_get_def)
  have s3: "smooth ?c2 ''phase'' alpha = Inr ?c3"
    using h by (simp add: smooth_def cur_val_def target_val_def dict_get_def)
  have s4: "smooth ?c3 ''dc'' alpha = Inr ?c4"
    using h by (simp add: smooth_def cur_val_def target_val_def dict_get_def)
  have "smooth_all c smoothed_keys alpha = (Inr (), ?c4)"
    unfolding smoothed_keys_def by (simp only: smooth_all.simps s1 s2 s3 s4 sum.case)
  moreover have "\<forall>k \<in> set smoothed_keys. cur ?c4 k = Some (?u k)"
    by (simp add: smoothed_keys_def)
  ultimately show ?thesis by simp
qed


lemma target_val_fixed: "target_val c k 0 = Inr t \<Longrightarrow> target_val c k t = Inr t"
  by (cases "target c k") (simp_all add: target_val_def dict_get_def)

lemma generate_after_smoothing:
  assumes "enabled c" "py_int (dict_get (params c) ''smooth_ms'' (PInt 150)) = Inr ms"
    and "sine_alpha ms n f_s = Inr alpha"
    and "smooth_all (if ms \<le> 0 then c\<lparr>cur := target c\<rparr> else c) smoothed_keys alpha = (Inr (), c')"
    and "\<forall>k \<in> set smoothed_keys. cur c' k = Some (PFloat (u k))"
  shows "SineComponent_generate c t0 n f_s =
           (Inr (sine_wave (u ''amplitude'') (u ''frequency'') (u ''phase'') (u ''dc'') t0 n f_s), c')"
proof -
  from assms(5) have "cur c' ''amplitude'' = Some (PFloat (u ''amplitude''))"
    "cur c' ''frequency'' = Some (PFloat (u ''frequency''))"
    "cur c' ''phase'' = Some (PFloat (u ''phase''))" "cur c' ''dc'' = Some (PFloat (u ''dc''))"
    by (simp_all add: smoothed_keys_def)
  then show ?thesis
    using assms(1-4) by (simp add: SineComponent_generate_def Let_def dict_get_def)
qed

text \<open>
  Claim C9, amended. For every \<open>generate\<close> call on an enabled sine component whose
  \<open>smooth_ms\<close> is positive, at a nonzero sample rate and with numbers as the current and
  target values, the call returns and each of the four smoothed current values
  (amplitude, frequency, phase, dc) becomes \<open>cur + alpha * (target - cur)\<close> with
  \<open>alpha = min 1 ((n / fs) / (smooth_ms / 1000))\<close>; when \<open>smooth_ms\<close> is not positive, or
  the chunk lasts at least the time constant, each of them becomes its target.
\<close>

theorem sine_smoothing:
  assumes "enabled c" "py_int (dict_get (params c) ''smooth_ms'' (PInt 150)) = Inr ms"
    and "0 < ms \<Longrightarrow> f_s \<noteq> 0 \<and>
           (\<forall>k \<in> set smoothed_keys. cur_val c k = Inr (cv k) \<and> target_val c k (cv k) = Inr (tv k))"
    and "ms \<le> 0 \<Longrightarrow> (\<forall>k \<in> set smoothed_keys. target_val c k 0 = Inr (tv k))"
  shows "\<exists>ys c'. SineComponent_generate c t0 n f_s = (Inr ys, c')
           \<and> (0 < ms \<longrightarrow> (\<forall>k \<in> set smoothed_keys. cur c' k =
                 Some (PFloat (cv k + min 1 ((real_of_int n / f_s) / (real_of_int ms / 1000)) * (tv k - cv k)))))
           \<and> (ms \<le> 0 \<or> real_of_int ms / 1000 \<le> real_of_int n / f_s \<longrightarrow>
                 (\<forall>k \<in> set smoothed_keys. cur c' k = Some (PFloat (tv k))))"
proof (cases "0 < ms")
  case True
  let ?a = "min 1 ((real_of_int n / f_s) / (real_of_int ms / 1000))"
  from assms(3)[OF True] have fs: "f_s \<noteq> 0"
    and num: "\<forall>k \<in> set smoothed_keys. cur_val c k = Inr (cv k) \<and> target_val c k (cv k) = Inr (tv k)"
    by simp_all
  have al: "sine_alpha ms n f_s = Inr ?a" using True fs by (simp add: sine_alpha_def)
  from smooth_all_four[OF num, of ?a] obtain c' where
    c': "smooth_all c smoothed_keys ?a = (Inr (), c')"
        "\<forall>k \<in> set smoothed_keys. cur c' k = Some (PFloat (cv k + ?a * (tv k - cv k)))" by blast
  have sm: "smooth_all (if ms \<le> 0 then c\<lparr>cur := target c\<rparr> else c) smoothed_keys ?a = (Inr (), c')"
    using True c'(1) by simp
  note gen = generate_after_smoothing[OF assms(1,2) al sm c'(2), of t0]
  have full: "\<forall>k \<in> set smoothed_keys. cur c' k = Some (PFloat (tv k))"
    if "real_of_int ms / 1000 \<le> real_of_int n / f_s"
  proof -
    define a b where "a = real_of_int ms / 1000" and "b = real_of_int n / f_s"
    have "0 < a" using True by (simp add: a_def)
    moreover have "a \<le> b" using that by (simp add: a_def b_def)
    ultimately have "1 \<le> b / a" by (simp add: pos_le_divide_eq)
    then have "1 \<le> (real_of_int n / f_s) / (real_of_int ms / 1000)"
      by (simp only: a_def b_def)
    then have "?a = 1" by simp
    then show ?thesis using c'(2) by simp
  qed
  show ?thesis using gen c'(2) full True by auto
next
  case False
  then have le: "ms \<le> 0" by simp
  let ?c1 = "c\<lparr>cur := target c\<rparr>"
  have al: "sine_alpha ms n f_s = Inr 1" using le by (simp add: sine_alpha_def)
  have num: "\<forall>k \<in> set smoothed_keys. cur_val ?c1 k = Inr (tv k) \<and> target_val ?c1 k (tv k) = Inr (tv k)"
  proof
    fix k assume "k \<in> set smoothed_keys"
    with assms(4)[OF le] have t: "target_val c k 0 = Inr (tv k)" by blast
    then have "cur_val ?c1 k = Inr (tv k)" by (simp add: cur_val_def target_val_def)
    moreover have "target_val ?c1 k (tv k) = Inr (tv k)"
      using target_val_fixed[OF t] by (simp add: target_val_def)
    ultimately show "cur_val ?c1 k = Inr (tv k) \<and> target_val ?c1 k (tv k) = Inr (tv k)" ..
  qed
  from smooth_all_four[OF num, of 1] obtain c' where
    c': "smooth_all ?c1 smoothed_keys 1 = (Inr (), c')"
        "\<forall>k \<in> set smoothed_keys. cur c' k = Some (PFloat (tv k))" by auto
  have sm: "smooth_all (if ms \<le> 0 then c\<lparr>cur := target c\<rparr> else c) smoothed_keys 1 = (Inr (), c')"
    using le c'(1) by simp
  note gen = generate_after_smoothing[OF assms(1,2) al sm c'(2), of t0]
  show ?thesis using gen c'(2) False by auto
qed

text \<open>
  Claim C9 as stated fails on a disabled component: \<open>generate\<close> returns zeros before any
  smoothing. The component is a disabled sine built with the schema defaults (amplitude 1,
  \<open>smooth_ms\<close> 150) whose amplitude was then set to 2: after a chunk of 256 samples at
  2000 Hz its current amplitude is still 1, not \<open>1 + alpha * (2 - 1)\<close>.
\<close>

theorem disabled_sine_not_smoothed:
  "cur (snd (SineComponent_generate
        (update_params (new_component Sine False (fill_defaults (schema Sine) Map.empty))
           [''amplitude'' \<mapsto> PFloat 2]) 0 256 2000)) ''amplitude'' = Some (PFloat 1)
   \<and> target (update_params (new_component Sine False (fill_defaults (schema Sine) Map.empty))
           [''amplitude'' \<mapsto> PFloat 2]) ''amplitude'' = Some (PFloat 2)
   \<and> PFloat 1 \<noteq> PFloat (1 + min 1 ((256 / 2000) / (150 / 1000)) * (2 - 1))"
  by (simp add: SineComponent_generate_def update_params_def new_component_def spec_def)

theorem sine_smoothing_witness:
  "\<exists>ys c'. SineComponent_generate
        \<lparr>kind = Sine, enabled = True,
         params = [''smooth_ms'' \<mapsto> PInt 150],
         cur = [''amplitude'' \<mapsto> PFloat 1, ''frequency'' \<mapsto> PFloat 5],
         target = [''amplitude'' \<mapsto> PFloat 2, ''frequency'' \<mapsto> PFloat 5]\<rparr> 0 256 2000 = (Inr ys, c')
     \<and> cur c' ''amplitude'' = Some (PFloat (139 / 75)) \<and> cur c' ''frequency'' = Some (PFloat 5)
     \<and> cur c' ''phase'' = Some (PFloat 0)"
proof -
  let ?c = "\<lparr>kind = Sine, enabled = True,
         params = [''smooth_ms'' \<mapsto> PInt 150],
         cur = [''amplitude'' \<mapsto> PFloat 1, ''frequency'' \<mapsto> PFloat 5],
         target = [''amplitude'' \<mapsto> PFloat 2, ''frequency'' \<mapsto> PFloat 5]\<rparr>"
  let ?cv = "\<lambda>k. if k = ''amplitude'' then 1 else if k = ''frequency'' then 5 else (0 :: real)"
  let ?tv = "\<lambda>k. if k = ''amplitude'' then 2 else if k = ''frequency'' then 5 else (0 :: real)"
  have h1: "enabled ?c" by simp
  have h2: "py_int (dict_get (params ?c) ''smooth_ms'' (PInt 150)) = Inr 150"
    by (simp add: dict_get_def)
  have h3: "(2000 :: real) \<noteq> 0 \<and>
           (\<forall>k \<in> set smoothed_keys. cur_val ?c k = Inr (?cv k) \<and> target_val ?c k (?cv k) = Inr (?tv k))"
    by (simp add: smoothed_keys_def cur_val_def target_val_def dict_get_def)
  have h4: "(150 :: int) \<le> 0 \<Longrightarrow> (\<forall>k \<in> set smoothed_keys. target_val ?c k 0 = Inr (?tv k))"
    by simp
  from sine_smoothing[of ?c 150 2000 ?cv ?tv 0 256, OF h1 h2 h3 h4] obtain ys c' where
    r: "SineComponent_generate ?c 0 256 2000 = (Inr ys, c')"
       "\<forall>k \<in> set smoothed_keys. cur c' k =
           Some (PFloat (?cv k + min 1 ((real_of_int 256 / 2000) / (real_of_int 150 / 1000)) * (?tv k - ?cv k)))"
    by auto
  have "cur c' ''amplitude'' = Some (PFloat (139 / 75))" "cur c' ''frequency'' = Some (PFloat 5)"
    "cur c' ''phase'' = Some (PFloat 0)"
    using r(2) by (simp_all add: smoothed_keys_def)
  then show ?thesis using r(1) by blast
qed

section \<open>Plugin manager: failures and aliases\<close>

lemma load_fails_logs:
  assumes "load_fails env modname"
  shows "\<exists>err. load_wavelet_module env pm modname plugin_id = log_failure pm modname err"
  using assms
  by (auto simp add: load_fails_def load_wavelet_module_def split: sum.splits option.splits)

lemma log_failure_registry: "wavelet_plugins (log_failure pm modname err) = wavelet_plugins pm"
  by (simp add: log_failure_def)

lemma load_registry_cong:
  assumes "wavelet_plugins pm = wavelet_plugins pm'"
  shows "wavelet_plugins (load_wavelet_module env pm modname plugin_id)
           = wavelet_plugins (load_wavelet_module env pm' modname plugin_id)"
  using assms
  by (auto simp add: load_wavelet_module_def log_failure_def Let_def split: sum.splits option.splits)

lemma load_all_registry_cong:
  "wavelet_plugins pm = wavelet_plugins pm' \<Longrightarrow>
     wavelet_plugins (load_all env pm cands) = wavelet_plugins (load_all env pm' cands)"
proof (induction cands arbitrary: pm pm')
  case Nil
  then show ?case by simp
next
  case (Cons c cands)
  obtain m f where c: "c = (m, f)" by (cases c)
  show ?case unfolding c load_all.simps
    by (rule Cons.IH) (rule load_registry_cong[OF Cons.prems])
qed

lemma load_all_append: "load_all env pm (a @ b) = load_all env (load_all env pm a) b"
  by (induction a arbitrary: pm) auto

lemma load_log_mono: "set (log pm) \<subseteq> set (log (load_wavelet_module env pm modname plugin_id))"
  by (auto simp add: load_wavelet_module_def log_failure_def Let_def split: sum.splits option.splits)

lemma load_all_log_mono: "set (log pm) \<subseteq> set (log (load_all env pm cands))"
proof (induction cands arbitrary: pm)
  case Nil
  then show ?case by simp
next
  case (Cons c cands)
  obtain m f where c: "c = (m, f)" by (cases c)
  show ?case unfolding c load_all.simps
    using load_log_mono[of pm env m f] Cons.IH[of "load_wavelet_module env pm m f"] by blast
qed

lemma reload_all_candidates:
  "reload_all env pm = load_all env (pm\<lparr>wavelet_plugins := Map.empty\<rparr>) (builtin_mods @ external_mods env)"
  by (simp add: reload_all_def load_external_wavelets_def load_builtin_wavelets_def load_all_append)

text \<open>
  Claim C6. Whatever the candidate modules are, when importing a candidate raises, or it
  lacks the plugin class or the metadata, or instantiating its class raises, the
  exception is caught and logged under the module's name, and \<open>reload_all\<close> ends with
  exactly the registry it builds from the other candidates alone: the failed candidate
  adds no entry, and the candidates before and after it are loaded as if it were absent.
\<close>

theorem failed_candidate_skipped:
  assumes "builtin_mods @ external_mods env = pre @ (modname, plugin_id) # post"
    and "load_fails env modname"
  shows "wavelet_plugins (reload_all env pm)
           = wavelet_plugins (load_all env (pm\<lparr>wavelet_plugins := Map.empty\<rparr>) (pre @ post))
       \<and> (\<exists>err. LogException modname err \<in> set (log (reload_all env pm)))"
proof -
  let ?pm0 = "pm\<lparr>wavelet_plugins := Map.empty\<rparr>"
  let ?pm1 = "load_all env ?pm0 pre"
  from load_fails_logs[OF assms(2), of ?pm1 plugin_id] obtain err where
    err: "load_wavelet_module env ?pm1 modname plugin_id = log_failure ?pm1 modname err" by blast
  have r: "reload_all env pm = load_all env (log_failure ?pm1 modname err) post"
    by (simp add: reload_all_candidates assms(1) load_all_append err)
  have "wavelet_plugins (load_all env (log_failure ?pm1 modname err) post)
          = wavelet_plugins (load_all env ?pm1 post)"
    by (rule load_all_registry_cong) (rule log_failure_registry)
  then have a: "wavelet_plugins (reload_all env pm) = wavelet_plugins (load_all env ?pm0 (pre @ post))"
    by (simp add: r load_all_append)
  have "LogException modname err \<in> set (log (log_failure ?pm1 modname err))"
    by (simp add: log_failure_def)
  then have "LogException modname err \<in> set (log (reload_all env pm))"
    unfolding r using load_all_log_mono by blast
  then show ?thesis using a by blast
qed

text \<open>
  Claim C7. When a module loads successfully (it imports, has both attributes, its class
  instantiates and its declared id is hashable), \<open>get_wavelet\<close> returns, right after the
  load, a \<open>PluginInfo\<close> with the new plugin object under the declared id and under the
  fallback id. When the two ids differ the registry has changed at exactly these two keys;
  when they coincide it has changed at that one key only.
\<close>

theorem alias_registered:
  assumes "import_module env modname = Inr m" "mod_WaveletPlugin m = Some (Inr obj)"
    and "mod_PLUGIN_META m = Some meta" "meta_get_id meta plugin_id = Inr pid" "key_of pid = Some k"
  shows "get_wavelet (load_wavelet_module env pm modname plugin_id) k
           = Some \<lparr>info_id = pid, info_meta = meta, info_module = m, info_plugin_obj = obj\<rparr>
       \<and> get_wavelet (load_wavelet_module env pm modname plugin_id) (KStr plugin_id)
           = Some \<lparr>info_id = pid, info_meta = meta, info_module = m, info_plugin_obj = obj\<rparr>
       \<and> (k \<noteq> KStr plugin_id \<longrightarrow>
            wavelet_plugins (load_wavelet_module env pm modname plugin_id)
              = (wavelet_plugins pm)
                  (KStr plugin_id \<mapsto> \<lparr>info_id = pid, info_meta = meta, info_module = m, info_plugin_obj = obj\<rparr>,
                   k \<mapsto> \<lparr>info_id = pid, info_meta = meta, info_module = m, info_plugin_obj = obj\<rparr>))
       \<and> (k = KStr plugin_id \<longrightarrow>
            wavelet_plugins (load_wavelet_module env pm modname plugin_id)
              = (wavelet_plugins pm)
                  (k \<mapsto> \<lparr>info_id = pid, info_meta = meta, info_module = m, info_plugin_obj = obj\<rparr>))"
proof -
  have eq: "pid = IdStr plugin_id \<longleftrightarrow> k = KStr plugin_id"
    using assms(5) by (cases pid) auto
  show ?thesis
    using assms eq
    by (auto simp add: load_wavelet_module_def get_wavelet_def Let_def)
qed


theorem failed_candidate_skipped_witness:
  "load_fails \<lparr>import_module = (\<lambda>n. if n = ''plugins.wavelets.good''
          then Inr \<lparr>mod_name = n, mod_WaveletPlugin = Some (Inr 1),
                    mod_PLUGIN_META = Some (MetaDict [''id'' \<mapsto> IdStr ''my_plugin''])\<rparr>
          else if n = ''plugins.wavelets.bad''
          then Inr \<lparr>mod_name = n, mod_WaveletPlugin = None, mod_PLUGIN_META = None\<rparr>
          else Inl ImportError),
        plugin_folder = Some [''good.py'', ''_skip.py'', ''bad.py'', ''notes.txt'']\<rparr> ''plugins.wavelets.bad''
   \<and> wavelet_plugins (reload_all \<lparr>import_module = (\<lambda>n. if n = ''plugins.wavelets.good''
          then Inr \<lparr>mod_name = n, mod_WaveletPlugin = Some (Inr 1),
                    mod_PLUGIN_META = Some (MetaDict [''id'' \<mapsto> IdStr ''my_plugin''])\<rparr>
          else if n = ''plugins.wavelets.bad''
          then Inr \<lparr>mod_name = n, mod_WaveletPlugin = None, mod_PLUGIN_META = None\<rparr>
          else Inl ImportError),
        plugin_folder = Some [''good.py'', ''_skip.py'', ''bad.py'', ''notes.txt'']\<rparr> \<lparr>wavelet_plugins = Map.empty, log = []\<rparr>)
       = [KStr ''plugin:plugins.wavelets.good'' \<mapsto> \<lparr>info_id = IdStr ''my_plugin'',
            info_meta = MetaDict [''id'' \<mapsto> IdStr ''my_plugin''],
            info_module = \<lparr>mod_name = ''plugins.wavelets.good'', mod_WaveletPlugin = Some (Inr 1),
                            mod_PLUGIN_META = Some (MetaDict [''id'' \<mapsto> IdStr ''my_plugin''])\<rparr>,
            info_plugin_obj = 1\<rparr>, KStr ''my_plugin'' \<mapsto> \<lparr>info_id = IdStr ''my_plugin'',
            info_meta = MetaDict [''id'' \<mapsto> IdStr ''my_plugin''],
            info_module = \<lparr>mod_name = ''plugins.wavelets.good'', mod_WaveletPlugin = Some (Inr 1),
                            mod_PLUGIN_META = Some (MetaDict [''id'' \<mapsto> IdStr ''my_plugin''])\<rparr>,
            info_plugin_obj = 1\<rparr>]
   \<and> LogException ''plugins.wavelets.bad'' ValueError \<in> set (log (reload_all \<lparr>import_module = (\<lambda>n. if n = ''plugins.wavelets.good''
          then Inr \<lparr>mod_name = n, mod_WaveletPlugin = Some (Inr 1),
                    mod_PLUGIN_META = Some (MetaDict [''id'' \<mapsto> IdStr ''my_plugin''])\<rparr>
          else if n = ''plugins.wavelets.bad''
          then Inr \<lparr>mod_name = n, mod_WaveletPlugin = None, mod_PLUGIN_META = None\<rparr>
          else Inl ImportError),
        plugin_folder = Some [''good.py'', ''_skip.py'', ''bad.py'', ''notes.txt'']\<rparr> \<lparr>wavelet_plugins = Map.empty, log = []\<rparr>))
   \<and> get_wavelet (reload_all \<lparr>import_module = (\<lambda>n. if n = ''plugins.wavelets.good''
          then Inr \<lparr>mod_name = n, mod_WaveletPlugin = Some (Inr 1),
                    mod_PLUGIN_META = Some (MetaDict [''id'' \<mapsto> IdStr ''my_plugin''])\<rparr>
          else if n = ''plugins.wavelets.bad''
          then Inr \<lparr>mod_name = n, mod_WaveletPlugin = None, mod_PLUGIN_META = None\<rparr>
          else Inl ImportError),
        plugin_folder = Some [''good.py'', ''_skip.py'', ''bad.py'', ''notes.txt'']\<rparr> \<lparr>wavelet_plugins = Map.empty, log = []\<rparr>) (KStr ''plugin:plugins.wavelets.bad'') = None"
proof -
  let ?env = "\<lparr>import_module = (\<lambda>n. if n = ''plugins.wavelets.good''
          then Inr \<lparr>mod_name = n, mod_WaveletPlugin = Some (Inr 1),
                    mod_PLUGIN_META = Some (MetaDict [''id'' \<mapsto> IdStr ''my_plugin''])\<rparr>
          else if n = ''plugins.wavelets.bad''
          then Inr \<lparr>mod_name = n, mod_WaveletPlugin = None, mod_PLUGIN_META = None\<rparr>
          else Inl ImportError),
        plugin_folder = Some [''good.py'', ''_skip.py'', ''bad.py'', ''notes.txt'']\<rparr>"
  let ?pm = "\<lparr>wavelet_plugins = Map.empty, log = []\<rparr>"
  let ?info = "\<lparr>info_id = IdStr ''my_plugin'',
            info_meta = MetaDict [''id'' \<mapsto> IdStr ''my_plugin''],
            info_module = \<lparr>mod_name = ''plugins.wavelets.good'', mod_WaveletPlugin = Some (Inr 1),
                            mod_PLUGIN_META = Some (MetaDict [''id'' \<mapsto> IdStr ''my_plugin''])\<rparr>,
            info_plugin_obj = 1\<rparr>"
  let ?pre = "builtin_mods @ [(''plugins.wavelets.good'', ''plugin:plugins.wavelets.good'')]"
  have ext: "external_mods ?env = [(''plugins.wavelets.good'', ''plugin:plugins.wavelets.good''),
                                   (''plugins.wavelets.bad'', ''plugin:plugins.wavelets.bad'')]"
    by (simp add: external_mods_def endswith_def startswith_def Let_def)
  have h1: "builtin_mods @ external_mods ?env
              = ?pre @ (''plugins.wavelets.bad'', ''plugin:plugins.wavelets.bad'') # []"
    by (simp add: ext)
  have h2: "load_fails ?env ''plugins.wavelets.bad''"
    by (simp add: load_fails_def)
  have ld: "wavelet_plugins (load_all ?env (?pm\<lparr>wavelet_plugins := Map.empty\<rparr>) (?pre @ []))
              = [KStr ''plugin:plugins.wavelets.good'' \<mapsto> ?info, KStr ''my_plugin'' \<mapsto> ?info]"
    by (simp add: builtin_mods_def load_wavelet_module_def log_failure_def meta_get_id_def Let_def)
  from failed_candidate_skipped[OF h1 h2, of ?pm] obtain err where
    r: "wavelet_plugins (reload_all ?env ?pm)
          = wavelet_plugins (load_all ?env (?pm\<lparr>wavelet_plugins := Map.empty\<rparr>) (?pre @ []))"
       "LogException ''plugins.wavelets.bad'' err \<in> set (log (reload_all ?env ?pm))" by blast
  have reg: "wavelet_plugins (reload_all ?env ?pm)
              = [KStr ''plugin:plugins.wavelets.good'' \<mapsto> ?info, KStr ''my_plugin'' \<mapsto> ?info]"
    using r(1) ld by simp
  have lg: "LogException ''plugins.wavelets.bad'' ValueError \<in> set (log (reload_all ?env ?pm))"
    by (simp add: reload_all_candidates ext builtin_mods_def load_wavelet_module_def
        log_failure_def meta_get_id_def Let_def)
  have ab: "get_wavelet (reload_all ?env ?pm) (KStr ''plugin:plugins.wavelets.bad'') = None"
    unfolding get_wavelet_def reg by simp
  show ?thesis by (rule conjI[OF h2 conjI[OF reg conjI[OF lg ab]]])
qed

theorem alias_registered_witness:
  "get_wavelet (load_wavelet_module \<lparr>import_module = (\<lambda>n. if n = ''plugins.wavelets.good''
          then Inr \<lparr>mod_name = n, mod_WaveletPlugin = Some (Inr 1),
                    mod_PLUGIN_META = Some (MetaDict [''id'' \<mapsto> IdStr ''my_plugin''])\<rparr>
          else if n = ''plugins.wavelets.bad''
          then Inr \<lparr>mod_name = n, mod_WaveletPlugin = None, mod_PLUGIN_META = None\<rparr>
          else Inl ImportError),
        plugin_folder = Some [''good.py'', ''_skip.py'', ''bad.py'', ''notes.txt'']\<rparr> \<lparr>wavelet_plugins = Map.empty, log = []\<rparr> ''plugins.wavelets.good'' ''plugin:plugins.wavelets.good'')
       (KStr ''my_plugin'') = Some \<lparr>info_id = IdStr ''my_plugin'',
            info_meta = MetaDict [''id'' \<mapsto> IdStr ''my_plugin''],
            info_module = \<lparr>mod_name = ''plugins.wavelets.good'', mod_WaveletPlugin = Some (Inr 1),
                            mod_PLUGIN_META = Some (MetaDict [''id'' \<mapsto> IdStr ''my_plugin''])\<rparr>,
            info_plugin_obj = 1\<rparr>
   \<and> get_wavelet (load_wavelet_module \<lparr>import_module = (\<lambda>n. if n = ''plugins.wavelets.good''
          then Inr \<lparr>mod_name = n, mod_WaveletPlugin = Some (Inr 1),
                    mod_PLUGIN_META = Some (MetaDict [''id'' \<mapsto> IdStr ''my_plugin''])\<rparr>
          else if n = ''plugins.wavelets.bad''
          then Inr \<lparr>mod_name = n, mod_WaveletPlugin = None, mod_PLUGIN_META = None\<rparr>
          else Inl ImportError),
        plugin_folder = Some [''good.py'', ''_skip.py'', ''bad.py'', ''notes.txt'']\<rparr> \<lparr>wavelet_plugins = Map.empty, log = []\<rparr> ''plugins.wavelets.good'' ''plugin:plugins.wavelets.good'')
       (KStr ''plugin:plugins.wavelets.good'') = Some \<lparr>info_id = IdStr ''my_plugin'',
            info_meta = MetaDict [''id'' \<mapsto> IdStr ''my_plugin''],
            info_module = \<lparr>mod_name = ''plugins.wavelets.good'', mod_WaveletPlugin = Some (Inr 1),
                            mod_PLUGIN_META = Some (MetaDict [''id'' \<mapsto> IdStr ''my_plugin''])\<rparr>,
            info_plugin_obj = 1\<rparr>
   \<and> dom (wavelet_plugins (load_wavelet_module \<lparr>import_module = (\<lambda>n. if n = ''plugins.wavelets.good''
          then Inr \<lparr>mod_name = n, mod_WaveletPlugin = Some (Inr 1),
                    mod_PLUGIN_META = Some (MetaDict [''id'' \<mapsto> IdStr ''my_plugin''])\<rparr>
          else if n = ''plugins.wavelets.bad''
          then Inr \<lparr>mod_name = n, mod_WaveletPlugin = None, mod_PLUGIN_META = None\<rparr>
          else Inl ImportError),
        plugin_folder = Some [''good.py'', ''_skip.py'', ''bad.py'', ''notes.txt'']\<rparr> \<lparr>wavelet_plugins = Map.empty, log = []\<rparr> ''plugins.wavelets.good'' ''my_plugin''))
       = {KStr ''my_plugin''}"
proof -
  let ?env = "\<lparr>import_module = (\<lambda>n. if n = ''plugins.wavelets.good''
          then Inr \<lparr>mod_name = n, mod_WaveletPlugin = Some (Inr 1),
                    mod_PLUGIN_META = Some (MetaDict [''id'' \<mapsto> IdStr ''my_plugin''])\<rparr>
          else if n = ''plugins.wavelets.bad''
          then Inr \<lparr>mod_name = n, mod_WaveletPlugin = None, mod_PLUGIN_META = None\<rparr>
          else Inl ImportError),
        plugin_folder = Some [''good.py'', ''_skip.py'', ''bad.py'', ''notes.txt'']\<rparr>"
  let ?pm = "\<lparr>wavelet_plugins = Map.empty, log = []\<rparr>"
  let ?m = "\<lparr>mod_name = ''plugins.wavelets.good'', mod_WaveletPlugin = Some (Inr (1 :: nat)),
             mod_PLUGIN_META = Some (MetaDict [''id'' \<mapsto> IdStr ''my_plugin''])\<rparr>"
  let ?meta = "MetaDict [''id'' \<mapsto> IdStr ''my_plugin'']"
  have h1: "import_module ?env ''plugins.wavelets.good'' = Inr ?m" by simp
  have h2: "mod_WaveletPlugin ?m = Some (Inr 1)" by simp
  have h3: "mod_PLUGIN_META ?m = Some ?meta" by simp
  have h4: "meta_get_id ?meta f = Inr (IdStr ''my_plugin'')" for f
    by (simp add: meta_get_id_def)
  have h5: "key_of (IdStr ''my_plugin'') = Some (KStr ''my_plugin'')" by simp
  note a = alias_registered[OF h1 h2 h3 h4[of "''plugin:plugins.wavelets.good''"] h5, of ?pm]
  note b = alias_registered[OF h1 h2 h3 h4[of "''my_plugin''"] h5, of ?pm]
  have a1: "get_wavelet (load_wavelet_module ?env ?pm ''plugins.wavelets.good'' ''plugin:plugins.wavelets.good'')
       (KStr ''my_plugin'') = Some \<lparr>info_id = IdStr ''my_plugin'',
            info_meta = MetaDict [''id'' \<mapsto> IdStr ''my_plugin''],
            info_module = \<lparr>mod_name = ''plugins.wavelets.good'', mod_WaveletPlugin = Some (Inr 1),
                            mod_PLUGIN_META = Some (MetaDict [''id'' \<mapsto> IdStr ''my_plugin''])\<rparr>,
            info_plugin_obj = 1\<rparr>"
    using a by (rule conjunct1)
  have a2: "get_wavelet (load_wavelet_module ?env ?pm ''plugins.wavelets.good'' ''plugin:plugins.wavelets.good'')
       (KStr ''plugin:plugins.wavelets.good'') = Some \<lparr>info_id = IdStr ''my_plugin'',
            info_meta = MetaDict [''id'' \<mapsto> IdStr ''my_plugin''],
            info_module = \<lparr>mod_name = ''plugins.wavelets.good'', mod_WaveletPlugin = Some (Inr 1),
                            mod_PLUGIN_META = Some (MetaDict [''id'' \<mapsto> IdStr ''my_plugin''])\<rparr>,
            info_plugin_obj = 1\<rparr>"
    using a by (rule conjunct1[OF conjunct2])
  have "wavelet_plugins (load_wavelet_module ?env ?pm ''plugins.wavelets.good'' ''my_plugin'')
          = (wavelet_plugins ?pm)(KStr ''my_plugin'' \<mapsto> \<lparr>info_id = IdStr ''my_plugin'',
            info_meta = MetaDict [''id'' \<mapsto> IdStr ''my_plugin''],
            info_module = \<lparr>mod_name = ''plugins.wavelets.good'', mod_WaveletPlugin = Some (Inr 1),
                            mod_PLUGIN_META = Some (MetaDict [''id'' \<mapsto> IdStr ''my_plugin''])\<rparr>,
            info_plugin_obj = 1\<rparr>)"
    using b by simp
  then have b1: "dom (wavelet_plugins (load_wavelet_module ?env ?pm ''plugins.wavelets.good'' ''my_plugin''))
       = {KStr ''my_plugin''}" by simp
  show ?thesis by (rule conjI[OF a1 conjI[OF a2 b1]])
qed

text \<open>
  A declared id that is not hashable makes the second store raise after the entry under
  the fallback id has been written: the failure is logged and the alias stays.
\<close>

lemma unhashable_id_leaves_alias:
  assumes "import_module env modname = Inr m" "mod_WaveletPlugin m = Some (Inr obj)"
    and "mod_PLUGIN_META m = Some (MetaDict d)" "d ''id'' = Some IdUnhashable"
  shows "load_wavelet_module env pm modname plugin_id
           = log_failure
               (pm\<lparr>wavelet_plugins := (wavelet_plugins pm)(KStr plugin_id \<mapsto>
                    \<lparr>info_id = IdUnhashable, info_meta = MetaDict d, info_module = m,
                     info_plugin_obj = obj\<rparr>)\<rparr>)
               modname TypeError"
  using assms by (simp add: load_wavelet_module_def meta_get_id_def Let_def)

section \<open>Wavelet plugins: short windows\<close>

lemma length_np_linspace: "length (np_linspace a b n) = n"
  by (simp add: np_linspace_def)

lemma length_np_geomspace: "length (np_geomspace a b n) = n"
  by (simp add: np_geomspace_def)

lemma length_freq_grid: "length (freq_grid f_min f_max n spacing) = nat (max 2 n)"
  by (simp add: freq_grid_def Let_def length_np_linspace length_np_geomspace)

lemma cwt_transform_y_axis:
  assumes "cwt_transform pywt_cwt central_frequency x f_s ps = Inr r"
  shows "length (y_axis r) = nat (max 2 (case py_int (dict_get ps ''n_freqs'' (PInt 128)) of Inr n \<Rightarrow> n | Inl err \<Rightarrow> 0))"
  using assms
  by (auto simp add: cwt_transform_def Let_def length_freq_grid split: sum.splits if_splits)

text \<open>
  The discrete plugin guards windows of fewer than 16 samples and answers with one row of
  zeros.
\<close>

lemma dwt_short_window_trivial:
  assumes "length x < 16" "f_s \<noteq> 0"
  shows "\<exists>r. dwt_transform long x f_s ps = Inr r \<and> trivial_result r"
  using assms by (simp add: dwt_transform_def trivial_result_def Let_def)

text \<open>
  Claim C8 does not hold of the continuous plugin, which has no guard on the window
  length: on the three-sample window \<open>[1, 2, 3]\<close> at 2000 Hz with default parameters it
  hands the window to \<open>pywt.cwt\<close>, and whatever that returns, the result carries the
  128 rows of the default frequency grid and is not the one-row zero result (or the call
  raises).
\<close>

theorem cwt_short_window_not_trivial:
  "case cwt_transform pywt_cwt central_frequency [1, 2, 3] 2000 Map.empty of
     Inl err \<Rightarrow> True
   | Inr r \<Rightarrow> length (y_axis r) = 128 \<and> \<not> trivial_result r"
proof (cases "cwt_transform pywt_cwt central_frequency [1, 2, 3] 2000 Map.empty")
  case (Inl err)
  then show ?thesis by simp
next
  case (Inr r)
  from cwt_transform_y_axis[OF Inr] have "length (y_axis r) = 128"
    by (simp add: dict_get_def)
  then show ?thesis using Inr by (simp add: trivial_result_def)
qed

end
